theory Spec2Isabelle
  imports Main "HOL-Library.Char_ord" "HOL-Library.List_Lexorder" "HOL-Library.Multiset"
    "HOL-Library.Word"
begin

section \<open>The raw tree, paths and errors\<close>

text \<open>
  The loader works on untyped trees (\<^verbatim>\<open>any\<close>): scalars, \<^verbatim>\<open>[]any\<close> and
  \<^verbatim>\<open>map[string]any\<close>. A Go map has no order and no duplicate keys; it is modelled as an
  association list that is read with \<open>map_of\<close> and written with \<open>upd\<close> (the first entry
  of a key is the entry). A \<^verbatim>\<open>float64\<close> is kept as its 64 bits.
\<close>

datatype yaml =
    Null
  | Bool bool
  | Integer int
  | Flt "64 word"
  | Str string
  | Seq "yaml list"
  | Map "(string \<times> yaml) list"

type_synonym mapping = "(string \<times> yaml) list"

fun upd :: "string \<Rightarrow> yaml \<Rightarrow> mapping \<Rightarrow> mapping" where
  "upd k v [] = [(k, v)]"
| "upd k v ((k', v') # m) = (if k' = k then (k, v) # m else (k', v') # upd k v m)"

fun del :: "string \<Rightarrow> mapping \<Rightarrow> mapping" where
  "del k [] = []"
| "del k ((k', v') # m) = (if k' = k then del k m else (k', v') # del k m)"

text \<open>\<^verbatim>\<open>strings.HasPrefix\<close>.\<close>

fun HasPrefix :: "string \<Rightarrow> string \<Rightarrow> bool" where
  "HasPrefix s [] = True"
| "HasPrefix [] (c # cs) = False"
| "HasPrefix (d # ds) (c # cs) = (d = c \<and> HasPrefix ds cs)"

text \<open>\<^verbatim>\<open>strings.Join\<close>.\<close>

fun Join :: "string list \<Rightarrow> string \<Rightarrow> string" where
  "Join [] sep = []"
| "Join [x] sep = x"
| "Join (x # y # ys) sep = x @ sep @ Join (y # ys) sep"

text \<open>
  Modelled from the spec: package \<^verbatim>\<open>tree\<close> (\<^verbatim>\<open>Path\<close>, \<^verbatim>\<open>NewPath\<close>, \<^verbatim>\<open>Next\<close>,
  \<^verbatim>\<open>Matches\<close>) is not among the sources. A path is a sequence of segments, \<^verbatim>\<open>Next\<close>
  appends one segment, and in \<open>Matches p pattern\<close> (the source's
  \<^verbatim>\<open>p.Matches(pattern)\<close>) a \<^verbatim>\<open>*\<close> of the pattern matches exactly one segment of \<open>p\<close>.
\<close>

type_synonym Path = "string list"

definition NewPath :: Path where
  "NewPath = []"

definition Next :: "Path \<Rightarrow> string \<Rightarrow> Path" where
  "Next p part = p @ [part]"

fun Matches :: "Path \<Rightarrow> Path \<Rightarrow> bool" where
  "Matches [] [] = True"
| "Matches (part # parts) (pat # pats) = ((pat = ''*'' \<or> pat = part) \<and> Matches parts pats)"
| "Matches _ _ = False"

text \<open>
  Errors are values. \<open>Panic\<close> is a Go run-time panic (a failed type assertion, a nil
  dereference); the other constructors are the errors the sources build, with the values
  their messages are formatted from. \<open>External\<close> is an error handed back by code outside
  the sources (a resource loader, the YAML parser, interpolation, port parsing).
\<close>

datatype error =
    Panic string
  | CircularReference string
  | CannotOverride Path
  | CannontOverride Path
  | ServiceNotFound string string
  | CannotRead string
  | InvalidPortType string
  | EmptyProjectName
  | InvalidProjectName string
  | External string

section \<open>Options\<close>

record ResourceLoader =
  Accept :: "string \<Rightarrow> bool"
  Load :: "string \<Rightarrow> error + string"

text \<open>
  \<^verbatim>\<open>Options\<close>; the interpolation options live in another package and are a type
  parameter, \<^verbatim>\<open>nil\<close> being \<open>None\<close>.
\<close>

record 'i Options =
  SkipValidation :: bool
  SkipInterpolation :: bool
  SkipNormalization :: bool
  ResolvePaths :: bool
  ConvertWindowsPaths :: bool
  SkipConsistencyCheck :: bool
  SkipExtends :: bool
  SkipInclude :: bool
  SkipResolveEnvironment :: bool
  Interpolate :: "'i option"
  discardEnvFiles :: bool
  projectName :: string
  projectNameImperativelySet :: bool
  Profiles :: "string list"
  ResourceLoaders :: "ResourceLoader list"

text \<open>
  \<^verbatim>\<open>Options.clone\<close>: the composite literal names fourteen fields;
  \<^verbatim>\<open>SkipResolveEnvironment\<close> is not among them and so has Go's zero value.
\<close>

definition clone :: "'i Options \<Rightarrow> 'i Options" where
  "clone opts = \<lparr>
     SkipValidation = SkipValidation opts,
     SkipInterpolation = SkipInterpolation opts,
     SkipNormalization = SkipNormalization opts,
     ResolvePaths = ResolvePaths opts,
     ConvertWindowsPaths = ConvertWindowsPaths opts,
     SkipConsistencyCheck = SkipConsistencyCheck opts,
     SkipExtends = SkipExtends opts,
     SkipInclude = SkipInclude opts,
     SkipResolveEnvironment = False,
     Interpolate = Interpolate opts,
     discardEnvFiles = discardEnvFiles opts,
     projectName = projectName opts,
     projectNameImperativelySet = projectNameImperativelySet opts,
     Profiles = Profiles opts,
     ResourceLoaders = ResourceLoaders opts \<rparr>"

definition GetProjectName :: "'i Options \<Rightarrow> string \<times> bool" where
  "GetProjectName opts = (projectName opts, projectNameImperativelySet opts)"

section \<open>The cycle tracker\<close>

record serviceRef =
  filename :: string
  service :: string

record cycleTracker =
  loaded :: "serviceRef list"

definition newline :: string where
  "newline = [CHR 0x0A]"

text \<open>
  The lines of the error of \<^verbatim>\<open>cycleTracker.Add\<close>: the header, the first tracked node,
  then one \<^verbatim>\<open>extends\<close> line for each of \<^verbatim>\<open>append(ct.loaded[1:], toAdd)\<close>.
\<close>

definition errLines :: "serviceRef \<Rightarrow> serviceRef list \<Rightarrow> serviceRef \<Rightarrow> string list" where
  "errLines first others toAdd =
     [''Circular reference:'', ''  '' @ service first @ '' in '' @ filename first]
     @ map (\<lambda>r. ''  extends '' @ service r @ '' in '' @ filename r) (others @ [toAdd])"

text \<open>
  The \<^verbatim>\<open>for _, loaded := range ct.loaded\<close> loop of \<^verbatim>\<open>Add\<close>, on the part of the list
  still to visit. \<^verbatim>\<open>ct.loaded[0]\<close> and \<^verbatim>\<open>ct.loaded[1:]\<close> panic on an empty list.
\<close>

fun Add_loop :: "serviceRef list \<Rightarrow> cycleTracker \<Rightarrow> serviceRef \<Rightarrow> error + cycleTracker" where
  "Add_loop [] ct toAdd = Inr (ct\<lparr>loaded := loaded ct @ [toAdd]\<rparr>)"
| "Add_loop (l # rest) ct toAdd =
     (if toAdd = l then
        (case loaded ct of
           [] \<Rightarrow> Inl (Panic ''index out of range'')
         | first # others \<Rightarrow> Inl (CircularReference (Join (errLines first others toAdd) newline)))
      else Add_loop rest ct toAdd)"

definition Add :: "cycleTracker \<Rightarrow> string \<Rightarrow> string \<Rightarrow> error + cycleTracker" where
  "Add ct f s = Add_loop (loaded ct) ct \<lparr>filename = f, service = s\<rparr>"

section \<open>The merge engine\<close>

text \<open>
  \<^verbatim>\<open>mergeSpecials\<close> maps a path pattern to a merger. The mergers call back into
  \<^verbatim>\<open>mergeMappings\<close>, so the table holds their names. The source ranges over a Go map, in
  no fixed order; no path matches two of the six patterns (lemma \<open>mergeSpecials_unique\<close>),
  so the first match of the list is the match.
\<close>

datatype merger = mergeLogging | override | mergeEnvironment | mergeUlimit

definition mergeSpecials :: "(Path \<times> merger) list" where
  "mergeSpecials =
    [([''services'', ''*'', ''logging''], mergeLogging),
     ([''services'', ''*'', ''command''], override),
     ([''services'', ''*'', ''entrypoint''], override),
     ([''services'', ''*'', ''healthcheck'', ''test''], override),
     ([''services'', ''*'', ''environment''], mergeEnvironment),
     ([''services'', ''*'', ''ulimits'', ''*''], mergeUlimit)]"

fun special :: "(Path \<times> merger) list \<Rightarrow> Path \<Rightarrow> merger option" where
  "special [] p = None"
| "special ((pattern, m) # rest) p = (if Matches p pattern then Some m else special rest p)"

text \<open>The name of the dynamic type of a value, as \<^verbatim>\<open>%T\<close> prints it.\<close>

fun typeName :: "yaml \<Rightarrow> string" where
  "typeName Null = ''<nil>''"
| "typeName (Bool b) = ''bool''"
| "typeName (Integer i) = ''int''"
| "typeName (Flt x) = ''float64''"
| "typeName (Str s) = ''string''"
| "typeName (Seq vs) = ''[]interface {}''"
| "typeName (Map m) = ''map[string]interface {}''"

text \<open>
  Go's \<^verbatim>\<open>==\<close> on two \<^verbatim>\<open>any\<close> values: false when the dynamic types differ, a panic when
  both hold a slice or both hold a map, the comparison of the values otherwise (for
  \<^verbatim>\<open>float64\<close> the IEEE one: a NaN equals nothing, the two zeros are equal).
\<close>

definition float64_eq :: "64 word \<Rightarrow> 64 word \<Rightarrow> bool" where
  "float64_eq a b =
     (let nan = (\<lambda>w::64 word. take_bit 11 (drop_bit 52 w) = (2047::64 word) \<and> take_bit 52 w \<noteq> 0);
          zero = (\<lambda>w::64 word. take_bit 63 w = 0)
      in \<not> nan a \<and> \<not> nan b \<and> ((zero a \<and> zero b) \<or> a = b))"

definition interface_eq :: "yaml \<Rightarrow> yaml \<Rightarrow> error + bool" where
  "interface_eq a b =
     (if typeName a \<noteq> typeName b then Inr False
      else (case a of
              Seq vs \<Rightarrow> Inl (Panic ''comparing uncomparable type []interface {}'')
            | Map m \<Rightarrow> Inl (Panic ''comparing uncomparable type map[string]interface {}'')
            | Flt x \<Rightarrow> (case b of Flt y \<Rightarrow> Inr (float64_eq x y) | _ \<Rightarrow> Inr False)
            | _ \<Rightarrow> Inr (a = b)))"

text \<open>\<^verbatim>\<open>m[k]\<close> read as a single value: \<^verbatim>\<open>nil\<close> for an absent key.\<close>

definition index :: "mapping \<Rightarrow> string \<Rightarrow> yaml" where
  "index m k = (case map_of m k of None \<Rightarrow> Null | Some v \<Rightarrow> v)"

text \<open>
  \<^verbatim>\<open>convertIntoSequence\<close>. \<^verbatim>\<open>fmt.Sprintf("%s=%s", k, v)\<close> writes a string operand as it
  is; what package \<^verbatim>\<open>fmt\<close> writes for an operand of another type is the parameter \<open>fmt\<close>.
  The entries are sorted by Go's \<^verbatim>\<open><\<close> on strings, the byte-wise lexicographic order.
\<close>

definition Sprintf_kv :: "(yaml \<Rightarrow> string) \<Rightarrow> string \<Rightarrow> yaml \<Rightarrow> string" where
  "Sprintf_kv fmt k v = k @ ''='' @ (case v of Str s \<Rightarrow> s | _ \<Rightarrow> fmt v)"

definition convertIntoSequence :: "(yaml \<Rightarrow> string) \<Rightarrow> yaml \<Rightarrow> yaml list" where
  "convertIntoSequence fmt value =
     (case value of
        Map v \<Rightarrow> map Str (sort (map (\<lambda>(k, v). if v = Null then k else Sprintf_kv fmt k v) v))
      | Seq v \<Rightarrow> v
      | _ \<Rightarrow> [])"

text \<open>
  \<^verbatim>\<open>mergeYaml\<close> and \<^verbatim>\<open>mergeMappings\<close>, with the four mergers inlined at their table
  entries. \<^verbatim>\<open>mergeMappings\<close> ranges over \<^verbatim>\<open>other\<close> and writes into \<^verbatim>\<open>mapping\<close>.
  \<^verbatim>\<open>mergeUlimit\<close> discards its first operand and takes both \<^verbatim>\<open>over\<close> and \<^verbatim>\<open>base\<close>
  from \<^verbatim>\<open>o\<close>. These definitions compute the returned value; the effect on the operands
  is the subject of the store model below.
\<close>

function mergeYaml :: "(yaml \<Rightarrow> string) \<Rightarrow> yaml \<Rightarrow> yaml \<Rightarrow> Path \<Rightarrow> error + yaml"
  and mergeMappings :: "(yaml \<Rightarrow> string) \<Rightarrow> mapping \<Rightarrow> mapping \<Rightarrow> Path \<Rightarrow> error + mapping"
where
  "mergeYaml fmt e ov p =
     (case special mergeSpecials p of
        Some mergeLogging \<Rightarrow>
          (case e of
             Map config \<Rightarrow>
               (case ov of
                  Map other \<Rightarrow>
                    (case interface_eq (index other ''driver'') (index config ''driver'') of
                       Inl err \<Rightarrow> Inl err
                     | Inr same \<Rightarrow>
                         if same \<or> map_of other ''driver'' = None \<or> map_of config ''driver'' = None
                         then (case mergeMappings fmt config other p of
                                 Inl err \<Rightarrow> Inl err
                               | Inr merged \<Rightarrow> Inr (Map merged))
                         else Inr (Map other))
                | _ \<Rightarrow> Inl (Panic ''interface conversion''))
           | _ \<Rightarrow> Inl (Panic ''interface conversion''))
      | Some override \<Rightarrow> Inr ov
      | Some mergeEnvironment \<Rightarrow> Inr (Seq (convertIntoSequence fmt e @ convertIntoSequence fmt ov))
      | Some mergeUlimit \<Rightarrow>
          (case ov of
             Map over \<Rightarrow>
               (case mergeMappings fmt over over p of
                  Inl err \<Rightarrow> Inl err
                | Inr merged \<Rightarrow> Inr (Map merged))
           | _ \<Rightarrow> Inr ov)
      | None \<Rightarrow>
          (case e of
             Map value \<Rightarrow>
               (case ov of
                  Map other \<Rightarrow>
                    (case mergeMappings fmt value other p of
                       Inl err \<Rightarrow> Inl err
                     | Inr merged \<Rightarrow> Inr (Map merged))
                | _ \<Rightarrow> Inl (CannotOverride p))
           | Seq value \<Rightarrow>
               (case ov of
                  Seq other \<Rightarrow> Inr (Seq (value @ other))
                | _ \<Rightarrow> Inl (CannontOverride p))
           | _ \<Rightarrow> Inr ov))"
| "mergeMappings fmt mapping [] p = Inr mapping"
| "mergeMappings fmt mapping ((k, v) # other) p =
     (case map_of mapping k of
        None \<Rightarrow> mergeMappings fmt (upd k v mapping) other p
      | Some e \<Rightarrow>
          if HasPrefix k ''x-'' then mergeMappings fmt (upd k v mapping) other p
          else (case mergeYaml fmt e v (Next p k) of
                  Inl err \<Rightarrow> Inl err
                | Inr merged \<Rightarrow> mergeMappings fmt (upd k merged mapping) other p))"
  by pat_completeness auto
termination
  by (relation "measure (\<lambda>x. case x of
        Inl (fmt, e, ov, p) \<Rightarrow> size ov
      | Inr (fmt, mapping, other, p) \<Rightarrow> size_list (size_prod (\<lambda>_. 0) size) other)") auto

text \<open>\<^verbatim>\<open>Merge\<close>: the first operand is the accumulator, the second the override.\<close>

definition Merge :: "(yaml \<Rightarrow> string) \<Rightarrow> mapping \<Rightarrow> mapping \<Rightarrow> error + mapping" where
  "Merge fmt right left =
     (case mergeYaml fmt (Map right) (Map left) NewPath of
        Inl err \<Rightarrow> Inl err
      | Inr (Map merged) \<Rightarrow> Inr merged
      | Inr _ \<Rightarrow> Inl (Panic ''interface conversion''))"

subsection \<open>Merging in a store of map objects\<close>

text \<open>
  In Go a \<^verbatim>\<open>map[string]any\<close> is a reference: \<^verbatim>\<open>mapping[k] = v\<close> changes the map object
  for every holder of it. To observe what a merge does to its operands, the same code is
  modelled over a store of map objects: a map value is the address of its object, and an
  assignment to a key updates the object in the store. A slice is kept as the list of its
  elements: \<^verbatim>\<open>append\<close> builds the slice it returns and leaves the elements its operands
  show as they are. The store may hold cycles, so the recursion carries fuel; \<open>None\<close> is
  fuel exhausted, never a result of the code.
\<close>

type_synonym addr = nat

datatype val =
    VNull
  | VBool bool
  | VInteger int
  | VFlt "64 word"
  | VStr string
  | VSeq "val list"
  | VMap addr

type_synonym store = "(string \<times> val) list list"

text \<open>Reading an address outside the store reads a nil map, which has no entries.\<close>

definition deref :: "store \<Rightarrow> addr \<Rightarrow> (string \<times> val) list" where
  "deref st a = (if a < length st then st ! a else [])"

fun updv :: "string \<Rightarrow> val \<Rightarrow> (string \<times> val) list \<Rightarrow> (string \<times> val) list" where
  "updv k v [] = [(k, v)]"
| "updv k v ((k', v') # m) = (if k' = k then (k, v) # m else (k', v') # updv k v m)"

definition assign :: "store \<Rightarrow> addr \<Rightarrow> string \<Rightarrow> val \<Rightarrow> store" where
  "assign st a k v = st[a := updv k v (deref st a)]"

fun typeName_st :: "val \<Rightarrow> string" where
  "typeName_st VNull = ''<nil>''"
| "typeName_st (VBool b) = ''bool''"
| "typeName_st (VInteger i) = ''int''"
| "typeName_st (VFlt x) = ''float64''"
| "typeName_st (VStr s) = ''string''"
| "typeName_st (VSeq vs) = ''[]interface {}''"
| "typeName_st (VMap a) = ''map[string]interface {}''"

definition interface_eq_st :: "val \<Rightarrow> val \<Rightarrow> error + bool" where
  "interface_eq_st a b =
     (if typeName_st a \<noteq> typeName_st b then Inr False
      else (case a of
              VSeq vs \<Rightarrow> Inl (Panic ''comparing uncomparable type []interface {}'')
            | VMap m \<Rightarrow> Inl (Panic ''comparing uncomparable type map[string]interface {}'')
            | VFlt x \<Rightarrow> (case b of VFlt y \<Rightarrow> Inr (float64_eq x y) | _ \<Rightarrow> Inr False)
            | _ \<Rightarrow> Inr (a = b)))"

definition index_st :: "store \<Rightarrow> addr \<Rightarrow> string \<Rightarrow> val" where
  "index_st st a k = (case map_of (deref st a) k of None \<Rightarrow> VNull | Some v \<Rightarrow> v)"

definition Sprintf_kv_st :: "(val \<Rightarrow> string) \<Rightarrow> string \<Rightarrow> val \<Rightarrow> string" where
  "Sprintf_kv_st fmt k v = k @ ''='' @ (case v of VStr s \<Rightarrow> s | _ \<Rightarrow> fmt v)"

definition convertIntoSequence_st :: "(val \<Rightarrow> string) \<Rightarrow> store \<Rightarrow> val \<Rightarrow> val list" where
  "convertIntoSequence_st fmt st value =
     (case value of
        VMap a \<Rightarrow> map VStr (sort (map (\<lambda>(k, v). if v = VNull then k else Sprintf_kv_st fmt k v) (deref st a)))
      | VSeq v \<Rightarrow> v
      | _ \<Rightarrow> [])"

text \<open>
  \<^verbatim>\<open>mergeYaml\<close> and \<^verbatim>\<open>mergeMappings\<close> over the store. The loop
  \<^verbatim>\<open>for k, v := range other\<close> visits the keys \<^verbatim>\<open>other\<close> has when the loop starts and
  reads each value when its key is reached, so that it sees what the loop has written when
  \<^verbatim>\<open>mapping\<close> and \<^verbatim>\<open>other\<close> are one object, as they are in \<^verbatim>\<open>mergeUlimit\<close>.
\<close>

function mergeYaml_st :: "nat \<Rightarrow> (val \<Rightarrow> string) \<Rightarrow> store \<Rightarrow> val \<Rightarrow> val \<Rightarrow> Path \<Rightarrow> ((error + val) \<times> store) option"
  and mergeMappings_st :: "nat \<Rightarrow> (val \<Rightarrow> string) \<Rightarrow> store \<Rightarrow> addr \<Rightarrow> addr \<Rightarrow> string list \<Rightarrow> Path \<Rightarrow> ((error + val) \<times> store) option"
where
  "mergeYaml_st 0 fmt st e ov p = None"
| "mergeYaml_st (Suc n) fmt st e ov p =
     (case special mergeSpecials p of
        Some mergeLogging \<Rightarrow>
          (case e of
             VMap config \<Rightarrow>
               (case ov of
                  VMap other \<Rightarrow>
                    (case interface_eq_st (index_st st other ''driver'') (index_st st config ''driver'') of
                       Inl err \<Rightarrow> Some (Inl err, st)
                     | Inr same \<Rightarrow>
                         if same \<or> map_of (deref st other) ''driver'' = None
                              \<or> map_of (deref st config) ''driver'' = None
                         then mergeMappings_st n fmt st config other (map fst (deref st other)) p
                         else Some (Inr (VMap other), st))
                | _ \<Rightarrow> Some (Inl (Panic ''interface conversion''), st))
           | _ \<Rightarrow> Some (Inl (Panic ''interface conversion''), st))
      | Some override \<Rightarrow> Some (Inr ov, st)
      | Some mergeEnvironment \<Rightarrow>
          Some (Inr (VSeq (convertIntoSequence_st fmt st e @ convertIntoSequence_st fmt st ov)), st)
      | Some mergeUlimit \<Rightarrow>
          (case ov of
             VMap over \<Rightarrow> mergeMappings_st n fmt st over over (map fst (deref st over)) p
           | _ \<Rightarrow> Some (Inr ov, st))
      | None \<Rightarrow>
          (case e of
             VMap value \<Rightarrow>
               (case ov of
                  VMap other \<Rightarrow> mergeMappings_st n fmt st value other (map fst (deref st other)) p
                | _ \<Rightarrow> Some (Inl (CannotOverride p), st))
           | VSeq value \<Rightarrow>
               (case ov of
                  VSeq other \<Rightarrow> Some (Inr (VSeq (value @ other)), st)
                | _ \<Rightarrow> Some (Inl (CannontOverride p), st))
           | _ \<Rightarrow> Some (Inr ov, st)))"
| "mergeMappings_st n fmt st mapping other [] p = Some (Inr (VMap mapping), st)"
| "mergeMappings_st n fmt st mapping other (k # ks) p =
     (case map_of (deref st other) k of
        None \<Rightarrow> mergeMappings_st n fmt st mapping other ks p
      | Some v \<Rightarrow>
          (case map_of (deref st mapping) k of
             None \<Rightarrow> mergeMappings_st n fmt (assign st mapping k v) mapping other ks p
           | Some e \<Rightarrow>
               if HasPrefix k ''x-'' then mergeMappings_st n fmt (assign st mapping k v) mapping other ks p
               else (case mergeYaml_st n fmt st e v (Next p k) of
                       None \<Rightarrow> None
                     | Some (Inl err, st') \<Rightarrow> Some (Inl err, st')
                     | Some (Inr merged, st') \<Rightarrow>
                         mergeMappings_st n fmt (assign st' mapping k merged) mapping other ks p)))"

  by pat_completeness auto
termination
  by (relation "measures [\<lambda>x. case x of Inl (n, fmt, st, e, ov, p) \<Rightarrow> n
                                     | Inr (n, fmt, st, a, b, ks, p) \<Rightarrow> n,
                          \<lambda>x. case x of Inl (n, fmt, st, e, ov, p) \<Rightarrow> 0
                                     | Inr (n, fmt, st, a, b, ks, p) \<Rightarrow> Suc (length ks)]") auto

text \<open>The tree that a value denotes in a store.\<close>

function tree_of :: "nat \<Rightarrow> store \<Rightarrow> val \<Rightarrow> yaml option"
  and trees_of :: "nat \<Rightarrow> store \<Rightarrow> val list \<Rightarrow> yaml list option"
  and entries_of :: "nat \<Rightarrow> store \<Rightarrow> (string \<times> val) list \<Rightarrow> mapping option"
where
  "tree_of 0 st v = None"
| "tree_of (Suc n) st VNull = Some Null"
| "tree_of (Suc n) st (VBool b) = Some (Bool b)"
| "tree_of (Suc n) st (VInteger i) = Some (Integer i)"
| "tree_of (Suc n) st (VFlt x) = Some (Flt x)"
| "tree_of (Suc n) st (VStr s) = Some (Str s)"
| "tree_of (Suc n) st (VSeq vs) = map_option Seq (trees_of n st vs)"
| "tree_of (Suc n) st (VMap a) = map_option Map (entries_of n st (deref st a))"
| "trees_of n st [] = Some []"
| "trees_of n st (v # vs) =
     (case tree_of n st v of None \<Rightarrow> None
      | Some t \<Rightarrow> map_option ((#) t) (trees_of n st vs))"
| "entries_of n st [] = Some []"
| "entries_of n st ((k, v) # kvs) =
     (case tree_of n st v of None \<Rightarrow> None
      | Some t \<Rightarrow> map_option ((#) (k, t)) (entries_of n st kvs))"
  by pat_completeness auto
termination
  by (relation "measures [\<lambda>x. case x of Inl (n, st, v) \<Rightarrow> n
                                     | Inr (Inl (n, st, vs)) \<Rightarrow> n
                                     | Inr (Inr (n, st, kvs)) \<Rightarrow> n,
                          \<lambda>x. case x of Inl (n, st, v) \<Rightarrow> 0
                                     | Inr (Inl (n, st, vs)) \<Rightarrow> Suc (length vs)
                                     | Inr (Inr (n, st, kvs)) \<Rightarrow> Suc (length kvs)]") auto

definition Merge_st :: "nat \<Rightarrow> (val \<Rightarrow> string) \<Rightarrow> store \<Rightarrow> addr \<Rightarrow> addr \<Rightarrow> ((error + addr) \<times> store) option" where
  "Merge_st n fmt st right left =
     (case mergeYaml_st n fmt st (VMap right) (VMap left) NewPath of
        None \<Rightarrow> None
      | Some (Inl err, st') \<Rightarrow> Some (Inl err, st')
      | Some (Inr (VMap merged), st') \<Rightarrow> Some (Inr merged, st')
      | Some (Inr _, st') \<Rightarrow> Some (Inl (Panic ''interface conversion''), st'))"



text \<open>
  A store with two trees: the accumulator at address 0 is
  \<^verbatim>\<open>{services: {web: {ulimits: {nofile: 5}}}}\<close>, the override at address 4 is
  \<^verbatim>\<open>{services: {web: {ulimits: {nofile: {a: [1]}}}}}\<close>.
\<close>

definition ulimit_store :: store where
  "ulimit_store =
     [[(''services'', VMap 1)], [(''web'', VMap 2)], [(''ulimits'', VMap 3)],
      [(''nofile'', VInteger 5)],
      [(''services'', VMap 5)], [(''web'', VMap 6)], [(''ulimits'', VMap 7)],
      [(''nofile'', VMap 8)], [(''a'', VSeq [VInteger 1])]]"

subsection \<open>The environment rule as the specification words it\<close>

text \<open>
  The specification's table entry for \<^verbatim>\<open>services.*.environment\<close> reads: convert both
  operands to a sorted \<^verbatim>\<open>KEY=VALUE\<close> sequence, then concatenate. \<open>spec_mergeEnvironment\<close>
  follows these words: whatever the operand is, its entries are written \<^verbatim>\<open>KEY=VALUE\<close>
  and put in ascending order.
\<close>

fun str_of :: "yaml \<Rightarrow> string" where
  "str_of (Str s) = s"
| "str_of _ = []"

definition spec_convertIntoSequence :: "(yaml \<Rightarrow> string) \<Rightarrow> yaml \<Rightarrow> yaml list" where
  "spec_convertIntoSequence fmt value =
     (case value of
        Map v \<Rightarrow> map Str (sort (map (\<lambda>(k, v). Sprintf_kv fmt k v) v))
      | Seq v \<Rightarrow> sort_key str_of v
      | _ \<Rightarrow> [])"

definition spec_mergeEnvironment :: "(yaml \<Rightarrow> string) \<Rightarrow> yaml \<Rightarrow> yaml \<Rightarrow> yaml" where
  "spec_mergeEnvironment fmt c ov =
     Seq (spec_convertIntoSequence fmt c @ spec_convertIntoSequence fmt ov)"

section \<open>The extends resolver\<close>

text \<open>
  Modelled from the spec: \<^verbatim>\<open>types.ConfigFile\<close> and \<^verbatim>\<open>types.ConfigDetails\<close> are declared
  outside the sources. A config file has a filename, optional content bytes and an optional
  parsed tree; the details hold the working directory, the ordered config files and the
  environment.
\<close>

record ConfigFile =
  Filename :: string
  Content :: string
  Config :: "mapping option"

record ConfigDetails =
  WorkingDir :: string
  ConfigFiles :: "ConfigFile list"
  Environment :: "(string \<times> string) list"

text \<open>\<^verbatim>\<open>deepClone\<close> rebuilds every slice and every map and returns a scalar as it is.\<close>

fun deepClone :: "yaml \<Rightarrow> yaml"
  and deepClone_list :: "yaml list \<Rightarrow> yaml list"
  and deepClone_map :: "mapping \<Rightarrow> mapping"
where
  "deepClone (Seq v) = Seq (deepClone_list v)"
| "deepClone (Map v) = Map (deepClone_map v)"
| "deepClone Null = Null"
| "deepClone (Bool b) = Bool b"
| "deepClone (Integer i) = Integer i"
| "deepClone (Flt x) = Flt x"
| "deepClone (Str s) = Str s"
| "deepClone_list [] = []"
| "deepClone_list (e # v) = deepClone e # deepClone_list v"
| "deepClone_map [] = []"
| "deepClone_map ((k, e) # v) = (k, deepClone e) # deepClone_map v"

text \<open>
  The calls \<^verbatim>\<open>ApplyExtends\<close> makes to the resource loaders are recorded, in order, with
  the position of the loader in \<^verbatim>\<open>opts.ResourceLoaders\<close>.
\<close>

datatype event = AcceptCall nat string | LoadCall nat string

text \<open>
  \<^verbatim>\<open>PostProcessor.Apply\<close> is handed \<^verbatim>\<open>{services: {name: source}}\<close> and may change
  \<^verbatim>\<open>source\<close> in place; its error is not looked at. A processor is the function from the
  service name and \<^verbatim>\<open>source\<close> to \<^verbatim>\<open>source\<close> after the call.
\<close>

type_synonym PostProcessor = "string \<Rightarrow> mapping \<Rightarrow> mapping"

text \<open>
  What \<^verbatim>\<open>ApplyExtends\<close> calls outside itself: \<^verbatim>\<open>filepath.Dir\<close>, \<^verbatim>\<open>filepath.IsAbs\<close>,
  \<^verbatim>\<open>filepath.Rel\<close>, the recursive \<^verbatim>\<open>loadYamlModel\<close> of the referenced file (it reads
  the file system and may add to the cycle tracker it shares) and
  \<^verbatim>\<open>override.ExtendService\<close>, which is not among the sources. The context carries the
  name of the compose file being loaded, if any.
\<close>

record 'i externals =
  Dir :: "string \<Rightarrow> string"
  IsAbs :: "string \<Rightarrow> bool"
  Rel :: "string \<Rightarrow> string \<Rightarrow> error + string"
  loadYamlModel :: "string option \<Rightarrow> ConfigDetails \<Rightarrow> 'i Options \<Rightarrow> cycleTracker
                      \<Rightarrow> error + (mapping \<times> cycleTracker)"
  ExtendService :: "mapping \<Rightarrow> mapping \<Rightarrow> error + mapping"

text \<open>
  The loop \<^verbatim>\<open>for _, loader := range opts.ResourceLoaders\<close>. Its body ends by assigning
  \<^verbatim>\<open>base\<close>; nothing leaves the loop but an error or the end of the list.
\<close>

fun ApplyExtends_loaders ::
  "'i externals \<Rightarrow> string option \<Rightarrow> string \<Rightarrow> 'i Options \<Rightarrow> string \<Rightarrow> string \<Rightarrow> string
     \<Rightarrow> nat \<Rightarrow> ResourceLoader list \<Rightarrow> yaml \<Rightarrow> cycleTracker \<Rightarrow> event list
     \<Rightarrow> error + (yaml \<times> cycleTracker \<times> event list)" where
  "ApplyExtends_loaders ext ctx workingdir opts name ref path i [] base ct log = Inr (base, ct, log)"
| "ApplyExtends_loaders ext ctx workingdir opts name ref path i (loader # rest) base ct log =
     (if \<not> Accept loader path
      then ApplyExtends_loaders ext ctx workingdir opts name ref path (Suc i) rest base ct
             (log @ [AcceptCall i path])
      else (case Load loader path of
              Inl err \<Rightarrow> Inl err
            | Inr local \<Rightarrow>
                (case (if IsAbs ext local then Inr (Dir ext local)
                       else Rel ext workingdir (Dir ext local)) of
                   Inl err \<Rightarrow> Inl err
                 | Inr relworkingdir \<Rightarrow>
                     (case loadYamlModel ext ctx
                             \<lparr>WorkingDir = relworkingdir,
                              ConfigFiles = [\<lparr>Filename = local, Content = [], Config = None\<rparr>],
                              Environment = []\<rparr>
                             ((clone opts)\<lparr>ResolvePaths := True, SkipNormalization := True,
                                SkipConsistencyCheck := True, SkipInclude := True\<rparr>) ct of
                        Inl err \<Rightarrow> Inl err
                      | Inr (source, ct') \<Rightarrow>
                          (case map_of source ''services'' of
                             Some (Map services) \<Rightarrow>
                               (case map_of services ref of
                                  None \<Rightarrow> Inl (ServiceNotFound name path)
                                | Some b \<Rightarrow>
                                    ApplyExtends_loaders ext ctx workingdir opts name ref path (Suc i)
                                      rest b ct' (log @ [AcceptCall i path, LoadCall i path]))
                           | _ \<Rightarrow> Inl (Panic ''interface conversion''))))))"

text \<open>
  \<^verbatim>\<open>switch v := x.(type)\<close>: the service reference and the file of an \<^verbatim>\<open>extends\<close>
  value; a value that is neither a mapping nor a string leaves both at their zero values.
\<close>

definition extends_target :: "yaml \<Rightarrow> error + (string \<times> yaml)" where
  "extends_target x =
     (case x of
        Map v \<Rightarrow> (case index v ''service'' of
                    Str r \<Rightarrow> Inr (r, index v ''file'')
                  | _ \<Rightarrow> Inl (Panic ''interface conversion''))
      | Str v \<Rightarrow> Inr (v, Null)
      | _ \<Rightarrow> Inr ([], Null))"

text \<open>The base service: from the referenced file, or from the services at hand.\<close>

definition ApplyExtends_base ::
  "'i externals \<Rightarrow> string option \<Rightarrow> string \<Rightarrow> 'i Options \<Rightarrow> mapping \<Rightarrow> string \<Rightarrow> string
     \<Rightarrow> yaml \<Rightarrow> cycleTracker \<Rightarrow> event list \<Rightarrow> error + (yaml \<times> cycleTracker \<times> event list)" where
  "ApplyExtends_base ext ctx workingdir opts services name ref file ct log =
     (if file \<noteq> Null then
        (case file of
           Str path \<Rightarrow>
             (case ApplyExtends_loaders ext ctx workingdir opts name ref path 0
                     (ResourceLoaders opts) Null ct log of
                Inl err \<Rightarrow> Inl err
              | Inr (base, ct', log') \<Rightarrow>
                  if base = Null then Inl (CannotRead path) else Inr (base, ct', log'))
         | _ \<Rightarrow> Inl (Panic ''interface conversion''))
      else
        (case map_of services ref of
           None \<Rightarrow> Inl (ServiceNotFound name ''filename'')
         | Some base \<Rightarrow> Inr (base, ct, log)))"

text \<open>
  One service that has an \<^verbatim>\<open>extends\<close> key: track it, find its base, clone the base, let
  the processors at it, merge, \<^verbatim>\<open>delete(merged, "extends")\<close> and write the service back.
\<close>

definition ApplyExtends_service ::
  "'i externals \<Rightarrow> string option \<Rightarrow> string \<Rightarrow> 'i Options \<Rightarrow> PostProcessor list
     \<Rightarrow> mapping \<Rightarrow> string \<Rightarrow> mapping \<Rightarrow> yaml \<Rightarrow> cycleTracker \<Rightarrow> event list
     \<Rightarrow> error + (mapping \<times> cycleTracker \<times> event list)" where
  "ApplyExtends_service ext ctx workingdir opts post services name svc x ct log =
     (case ctx of
        None \<Rightarrow> Inl (Panic ''interface conversion'')
      | Some composeFile \<Rightarrow>
     (case Add ct composeFile name of
        Inl err \<Rightarrow> Inl err
      | Inr ct1 \<Rightarrow>
     (case extends_target x of
        Inl err \<Rightarrow> Inl err
      | Inr (ref, file) \<Rightarrow>
     (case ApplyExtends_base ext ctx workingdir opts services name ref file ct1 log of
        Inl err \<Rightarrow> Inl err
      | Inr (base, ct2, log2) \<Rightarrow>
     (case deepClone base of
        Map source \<Rightarrow>
          (case ExtendService ext (fold (\<lambda>processor src. processor name src) post source) svc of
             Inl err \<Rightarrow> Inl err
           | Inr merged \<Rightarrow> Inr (upd name (Map (del ''extends'' merged)) services, ct2, log2))
      | _ \<Rightarrow> Inl (Panic ''interface conversion''))))))"

text \<open>
  The loop \<^verbatim>\<open>for name, s := range services\<close>, over the keys the mapping has when the
  loop starts; the value of a key is read when the key is reached.
\<close>

fun ApplyExtends_services ::
  "'i externals \<Rightarrow> string option \<Rightarrow> string \<Rightarrow> 'i Options \<Rightarrow> PostProcessor list
     \<Rightarrow> string list \<Rightarrow> mapping \<Rightarrow> cycleTracker \<Rightarrow> event list
     \<Rightarrow> error + (mapping \<times> cycleTracker \<times> event list)" where
  "ApplyExtends_services ext ctx workingdir opts post [] services ct log = Inr (services, ct, log)"
| "ApplyExtends_services ext ctx workingdir opts post (name # names) services ct log =
     (case map_of services name of
        None \<Rightarrow> ApplyExtends_services ext ctx workingdir opts post names services ct log
      | Some (Map svc) \<Rightarrow>
          (case map_of svc ''extends'' of
             None \<Rightarrow> ApplyExtends_services ext ctx workingdir opts post names services ct log
           | Some x \<Rightarrow>
               (case ApplyExtends_service ext ctx workingdir opts post services name svc x ct log of
                  Inl err \<Rightarrow> Inl err
                | Inr (services', ct', log') \<Rightarrow>
                    ApplyExtends_services ext ctx workingdir opts post names services' ct' log'))
      | Some _ \<Rightarrow> Inl (Panic ''interface conversion''))"

definition ApplyExtends ::
  "'i externals \<Rightarrow> string option \<Rightarrow> mapping \<Rightarrow> string \<Rightarrow> 'i Options \<Rightarrow> cycleTracker
     \<Rightarrow> PostProcessor list \<Rightarrow> error + (mapping \<times> cycleTracker \<times> event list)" where
  "ApplyExtends ext ctx dict workingdir opts ct post =
     (case map_of dict ''services'' of
        None \<Rightarrow> Inr (dict, ct, [])
      | Some (Map services) \<Rightarrow>
          (case ApplyExtends_services ext ctx workingdir opts post (map fst services) services ct [] of
             Inl err \<Rightarrow> Inl err
           | Inr (services', ct', log) \<Rightarrow> Inr (upd ''services'' (Map services') dict, ct', log))
      | Some _ \<Rightarrow> Inl (Panic ''interface conversion''))"

text \<open>
  Modelled from the spec: \<^verbatim>\<open>override.ExtendService\<close> is not among the sources. The
  specification has it apply the generic merge with the table of special paths, rooted at
  a service.
\<close>

definition ExtendService_spec :: "(yaml \<Rightarrow> string) \<Rightarrow> mapping \<Rightarrow> mapping \<Rightarrow> error + mapping" where
  "ExtendService_spec fmt base ov =
     (case mergeYaml fmt (Map base) (Map ov) [''services'', ''x''] of
        Inl err \<Rightarrow> Inl err
      | Inr (Map merged) \<Rightarrow> Inr merged
      | Inr _ \<Rightarrow> Inl (Panic ''interface conversion''))"

text \<open>
  A world for the examples: every path is absolute, loading a file yields one service
  \<^verbatim>\<open>base\<close> whose image is the name of the file that was loaded.
\<close>

definition file_externals :: "unit externals" where
  "file_externals = \<lparr>
     Dir = (\<lambda>p. ''/''),
     IsAbs = (\<lambda>p. True),
     Rel = (\<lambda>b p. Inr p),
     loadYamlModel = (\<lambda>ctx details opts ct.
        Inr ([(''services'', Map [(''base'', Map [(''image'', Str (concat (map Filename (ConfigFiles details))))])])], ct)),
     ExtendService = ExtendService_spec (\<lambda>v. []) \<rparr>"

text \<open>Options with two resource loaders that both accept every path.\<close>

definition two_loaders :: "unit Options" where
  "two_loaders = \<lparr>
     SkipValidation = False, SkipInterpolation = False, SkipNormalization = False,
     ResolvePaths = True, ConvertWindowsPaths = False, SkipConsistencyCheck = False,
     SkipExtends = False, SkipInclude = False, SkipResolveEnvironment = False,
     Interpolate = None, discardEnvFiles = False, projectName = ''p'',
     projectNameImperativelySet = True, Profiles = [],
     ResourceLoaders = [\<lparr>Accept = (\<lambda>p. True), Load = (\<lambda>p. Inr (''/remote/'' @ p))\<rparr>,
                        \<lparr>Accept = (\<lambda>p. True), Load = (\<lambda>p. Inr (''/local/'' @ p))\<rparr>] \<rparr>"

text \<open>A service entry that is a mapping without an \<^verbatim>\<open>extends\<close> key.\<close>

definition no_extends :: "mapping \<Rightarrow> string \<Rightarrow> bool" where
  "no_extends services k \<longleftrightarrow> (\<exists>m. map_of services k = Some (Map m) \<and> map_of m ''extends'' = None)"

section \<open>Canonical ports\<close>

text \<open>\<^verbatim>\<open>fmt.Sprint\<close> of an \<^verbatim>\<open>int\<close> and \<^verbatim>\<open>strconv.Itoa\<close>: the decimal digits, with a sign.\<close>

definition digit :: "nat \<Rightarrow> char" where
  "digit d = char_of (48 + d)"

fun digits :: "nat \<Rightarrow> string" where
  "digits n = (if n < 10 then [digit n] else digits (n div 10) @ [digit (n mod 10)])"

declare digits.simps [simp del]

definition Itoa :: "int \<Rightarrow> string" where
  "Itoa i = (if i < 0 then CHR ''-'' # digits (nat (- i)) else digits (nat i))"

text \<open>
  \<^verbatim>\<open>transformPorts\<close>. \<^verbatim>\<open>types.ParsePortConfig\<close> and the \<^verbatim>\<open>mapstructure\<close> decoder behind
  \<^verbatim>\<open>encode\<close> are outside the sources and are parameters; \<open>'p\<close> is the type of a parsed
  port configuration. On an error the source returns its input (or nil) beside the error;
  the model returns the error. \<open>encode_all\<close> is the inner loop
  \<^verbatim>\<open>for _, v := range parsed\<close>.
\<close>

fun encode_all :: "('p \<Rightarrow> error + mapping) \<Rightarrow> 'p list \<Rightarrow> yaml list \<Rightarrow> error + yaml list" where
  "encode_all encode [] ports = Inr ports"
| "encode_all encode (v # parsed) ports =
     (case encode v of
        Inl err \<Rightarrow> Inl err
      | Inr m \<Rightarrow> encode_all encode parsed (ports @ [Map m]))"

fun transformPorts_entries ::
  "(string \<Rightarrow> error + 'p list) \<Rightarrow> ('p \<Rightarrow> error + mapping) \<Rightarrow> yaml list \<Rightarrow> yaml list
     \<Rightarrow> error + yaml list" where
  "transformPorts_entries ParsePortConfig encode [] ports = Inr ports"
| "transformPorts_entries ParsePortConfig encode (entry # entries) ports =
     (case entry of
        Integer v \<Rightarrow>
          (case ParsePortConfig (Itoa v) of
             Inl err \<Rightarrow> Inl err
           | Inr parsed \<Rightarrow>
               (case encode_all encode parsed ports of
                  Inl err \<Rightarrow> Inl err
                | Inr ports' \<Rightarrow> transformPorts_entries ParsePortConfig encode entries ports'))
      | Str v \<Rightarrow>
          (case ParsePortConfig v of
             Inl err \<Rightarrow> Inl err
           | Inr parsed \<Rightarrow>
               (case encode_all encode parsed ports of
                  Inl err \<Rightarrow> Inl err
                | Inr ports' \<Rightarrow> transformPorts_entries ParsePortConfig encode entries ports'))
      | Map v \<Rightarrow> transformPorts_entries ParsePortConfig encode entries (ports @ [Map v])
      | _ \<Rightarrow> Inl (InvalidPortType (typeName entry)))"

definition transformPorts ::
  "(string \<Rightarrow> error + 'p list) \<Rightarrow> ('p \<Rightarrow> error + mapping) \<Rightarrow> yaml \<Rightarrow> error + yaml" where
  "transformPorts ParsePortConfig encode data =
     (case data of
        Seq entries \<Rightarrow>
          (case transformPorts_entries ParsePortConfig encode entries [] of
             Inl err \<Rightarrow> Inl err
           | Inr ports \<Rightarrow> Inr (Seq ports))
      | _ \<Rightarrow> Inl (InvalidPortType (typeName data)))"

text \<open>
  What one entry of the sequence adds to \<^verbatim>\<open>ports\<close>: the body of the loop over the
  entries, started on no ports.
\<close>

definition port_mappings ::
  "(string \<Rightarrow> error + 'p list) \<Rightarrow> ('p \<Rightarrow> error + mapping) \<Rightarrow> yaml \<Rightarrow> error + yaml list" where
  "port_mappings ParsePortConfig encode entry =
     (case entry of
        Integer v \<Rightarrow>
          (case ParsePortConfig (Itoa v) of
             Inl err \<Rightarrow> Inl err
           | Inr parsed \<Rightarrow> encode_all encode parsed [])
      | Str v \<Rightarrow>
          (case ParsePortConfig v of
             Inl err \<Rightarrow> Inl err
           | Inr parsed \<Rightarrow> encode_all encode parsed [])
      | Map v \<Rightarrow> Inr [Map v]
      | _ \<Rightarrow> Inl (InvalidPortType (typeName entry)))"

definition is_mapping :: "yaml \<Rightarrow> bool" where
  "is_mapping v = (case v of Map m \<Rightarrow> True | _ \<Rightarrow> False)"

text \<open>
  Modelled from the spec: \<^verbatim>\<open>types.ParsePortConfig\<close>, \<^verbatim>\<open>types.ServicePortConfig\<close> and the
  encoding of a port are not among the sources. The specification gives a port the fields
  target, published, protocol, host-ip and mode, has \<^verbatim>\<open>"8080:80"\<close> become
  \<^verbatim>\<open>{target: 80, published: "8080", protocol: "tcp", mode: "ingress"}\<close>, and has a range
  expand to several ports. \<open>short_port\<close> covers the three forms \<^verbatim>\<open>TARGET\<close>,
  \<^verbatim>\<open>FIRST-LAST\<close> (one port for each target of the range) and \<^verbatim>\<open>PUBLISHED:TARGET\<close>,
  with decimal numbers, and rejects every other text; it is used below at texts of these
  three forms and at a text that is no port specification.
\<close>

record ServicePortConfig =
  Mode :: string
  HostIP :: string
  Target :: nat
  Published :: string
  Protocol :: string

definition is_number :: "string \<Rightarrow> bool" where
  "is_number s \<longleftrightarrow> s \<noteq> [] \<and> list_all (\<lambda>c. CHR ''0'' \<le> c \<and> c \<le> CHR ''9'') s"

definition Atoi :: "string \<Rightarrow> nat" where
  "Atoi s = foldl (\<lambda>n c. 10 * n + (of_char c - 48)) 0 s"

definition short_port :: "string \<Rightarrow> error + ServicePortConfig list" where
  "short_port value =
     (let published = takeWhile (\<lambda>c. c \<noteq> CHR '':'') value;
          target = drop 1 (dropWhile (\<lambda>c. c \<noteq> CHR '':'') value);
          first = takeWhile (\<lambda>c. c \<noteq> CHR ''-'') value;
          last = drop 1 (dropWhile (\<lambda>c. c \<noteq> CHR ''-'') value)
      in if is_number value then
           Inr [\<lparr>Mode = ''ingress'', HostIP = [], Target = Atoi value, Published = [],
                 Protocol = ''tcp''\<rparr>]
         else if is_number first \<and> is_number last \<and> Atoi first \<le> Atoi last then
           Inr (map (\<lambda>t. \<lparr>Mode = ''ingress'', HostIP = [], Target = t, Published = [],
                           Protocol = ''tcp''\<rparr>) [Atoi first ..< Suc (Atoi last)])
         else if is_number published \<and> is_number target then
           Inr [\<lparr>Mode = ''ingress'', HostIP = [], Target = Atoi target, Published = published,
                 Protocol = ''tcp''\<rparr>]
         else Inl (External ''invalid port specification''))"

definition encode_port :: "ServicePortConfig \<Rightarrow> error + mapping" where
  "encode_port v =
     Inr ([(''mode'', Str (Mode v))]
          @ (if HostIP v = [] then [] else [(''host_ip'', Str (HostIP v))])
          @ [(''target'', Integer (int (Target v)))]
          @ (if Published v = [] then [] else [(''published'', Str (Published v))])
          @ [(''protocol'', Str (Protocol v))])"


section \<open>Grouping extensions\<close>

text \<open>
  Modelled from the spec: the constant \<^verbatim>\<open>consts.Extensions\<close> is declared outside the
  sources; the specification names the sub-mapping \<^verbatim>\<open>extensions\<close>.
\<close>

definition Extensions :: string where
  "Extensions = ''extensions''"

definition userDefinedKeys :: "Path list" where
  "userDefinedKeys = [[''services''], [''volumes''], [''networks''], [''secrets''], [''configs'']]"

text \<open>
  The inner loop over \<^verbatim>\<open>userDefinedKeys\<close>: \<^verbatim>\<open>skip\<close> is set when
  \<^verbatim>\<open>uk.Matches(p)\<close> holds for one of them, the key being the receiver and the path of
  the mapping the pattern.
\<close>

definition skip :: "Path \<Rightarrow> bool" where
  "skip p = list_ex (\<lambda>uk. Matches uk p) userDefinedKeys"

text \<open>
  \<^verbatim>\<open>groupXFieldsIntoExtensions\<close>. \<open>groupX_range\<close> is the loop over the entries of
  \<^verbatim>\<open>dict\<close>: an entry that goes to \<^verbatim>\<open>extras\<close> is deleted, the others are kept with
  their mappings regrouped. \<open>groupX_elems\<close> is the loop over a sequence value, whose
  mapping elements get the path \<^verbatim>\<open>p.Next(strconv.Itoa(i))\<close>.
\<close>

function groupXFieldsIntoExtensions :: "mapping \<Rightarrow> Path \<Rightarrow> mapping"
  and groupX_range :: "mapping \<Rightarrow> Path \<Rightarrow> mapping"
  and groupX_elems :: "yaml list \<Rightarrow> Path \<Rightarrow> nat \<Rightarrow> yaml list"
where
  "groupXFieldsIntoExtensions dict p =
     (let extras = filter (\<lambda>(key, value). \<not> skip p \<and> HasPrefix key ''x-'') dict;
          dict' = groupX_range dict p
      in if length extras > 0 then upd Extensions (Map extras) dict' else dict')"
| "groupX_range [] p = []"
| "groupX_range ((key, value) # rest) p =
     (if \<not> skip p \<and> HasPrefix key ''x-'' then groupX_range rest p
      else (key, (case value of
                    Map v \<Rightarrow> Map (groupXFieldsIntoExtensions v (Next p key))
                  | Seq v \<Rightarrow> Seq (groupX_elems v p 0)
                  | _ \<Rightarrow> value)) # groupX_range rest p)"
| "groupX_elems [] p i = []"
| "groupX_elems (e # v) p i =
     (case e of
        Map m \<Rightarrow> Map (groupXFieldsIntoExtensions m (Next p (Itoa (int i))))
      | _ \<Rightarrow> e) # groupX_elems v p (Suc i)"
  by pat_completeness auto
termination
  by (relation "measures [\<lambda>x. case x of
         Inl (dict, p) \<Rightarrow> size_list (size_prod (\<lambda>_. 0) size) dict
       | Inr (Inl (dict, p)) \<Rightarrow> size_list (size_prod (\<lambda>_. 0) size) dict
       | Inr (Inr (v, p, i)) \<Rightarrow> size_list size v,
       \<lambda>x. case x of Inl _ \<Rightarrow> 1 | Inr _ \<Rightarrow> 0]") auto


section \<open>The project name\<close>

text \<open>
  \<^verbatim>\<open>NormalizeProjectName\<close>: lower case, then the characters matching
  \<^verbatim>\<open>[a-z0-9_-]\<close>, then \<^verbatim>\<open>strings.TrimLeft(s, "_-")\<close>. A string is its UTF-8 bytes.
  \<open>ToLower\<close> lowers the ASCII letters and the two code points outside ASCII whose lower
  case is an ASCII letter, U+212A (to \<^verbatim>\<open>k\<close>) and U+0130 (to \<^verbatim>\<open>i\<close>); every other byte
  outside ASCII stays, and is not in \<^verbatim>\<open>[a-z0-9_-]\<close> before or after lowering.
\<close>

definition lower :: "char \<Rightarrow> char" where
  "lower c = (if CHR ''A'' \<le> c \<and> c \<le> CHR ''Z'' then char_of (of_char c + (32::nat)) else c)"

fun ToLower :: "string \<Rightarrow> string" where
  "ToLower (a # b # c # cs) =
     (if a = CHR 0xE2 \<and> b = CHR 0x84 \<and> c = CHR 0xAA then CHR ''k'' # ToLower cs
      else if a = CHR 0xC4 \<and> b = CHR 0xB0 then CHR ''i'' # ToLower (c # cs)
      else lower a # ToLower (b # c # cs))"
| "ToLower [a, b] = (if a = CHR 0xC4 \<and> b = CHR 0xB0 then ''i'' else [lower a, lower b])"
| "ToLower [a] = [lower a]"
| "ToLower [] = []"

definition name_char :: "char \<Rightarrow> bool" where
  "name_char c \<longleftrightarrow> (CHR ''a'' \<le> c \<and> c \<le> CHR ''z'') \<or> (CHR ''0'' \<le> c \<and> c \<le> CHR ''9'')
                   \<or> c = CHR ''_'' \<or> c = CHR ''-''"

definition NormalizeProjectName :: "string \<Rightarrow> string" where
  "NormalizeProjectName s =
     dropWhile (\<lambda>c. c = CHR ''_'' \<or> c = CHR ''-'') (filter name_char (ToLower s))"

text \<open>
  The loop over the config files: the last \<^verbatim>\<open>name\<close> that is not the empty string.
  \<open>None\<close> is the early \<^verbatim>\<open>return "", nil\<close>, taken when a file does not parse or a
  name is not a string. \<^verbatim>\<open>ParseYAML\<close> decodes YAML and is a parameter.
\<close>

fun nameFromConfigFiles :: "(string \<Rightarrow> error + mapping) \<Rightarrow> ConfigFile list \<Rightarrow> string \<Rightarrow> string option" where
  "nameFromConfigFiles ParseYAML [] pjNameFromConfigFile = Some pjNameFromConfigFile"
| "nameFromConfigFiles ParseYAML (configFile # rest) pjNameFromConfigFile =
     (case ParseYAML (Content configFile) of
        Inl err \<Rightarrow> None
      | Inr yml \<Rightarrow>
          (case map_of yml ''name'' of
             None \<Rightarrow> nameFromConfigFiles ParseYAML rest pjNameFromConfigFile
           | Some val \<Rightarrow>
               if val \<noteq> Str [] then
                 (case val of
                    Str sVal \<Rightarrow> nameFromConfigFiles ParseYAML rest sVal
                  | _ \<Rightarrow> None)
               else nameFromConfigFiles ParseYAML rest pjNameFromConfigFile))"

text \<open>The two checks that end \<^verbatim>\<open>projectName\<close>.\<close>

definition checkProjectName :: "string \<Rightarrow> error + string" where
  "checkProjectName name =
     (if name = [] then Inl EmptyProjectName
      else if NormalizeProjectName name \<noteq> name then Inl (InvalidProjectName name)
      else Inr name)"

text \<open>
  \<^verbatim>\<open>interp.Interpolate\<close> applied to \<^verbatim>\<open>{"name": pjNameFromConfigFile}\<close>, then
  \<^verbatim>\<open>interpolated["name"].(string)\<close>; the interpolation itself is a parameter.
\<close>

definition interpolateName ::
  "('i \<Rightarrow> string \<Rightarrow> error + yaml) \<Rightarrow> 'i Options \<Rightarrow> string \<Rightarrow> error + string" where
  "interpolateName Interpolate_name opts pjNameFromConfigFile =
     (if \<not> SkipInterpolation opts then
        (case Interpolate opts of
           None \<Rightarrow> Inl (Panic ''nil pointer dereference'')
         | Some io \<Rightarrow>
             (case Interpolate_name io pjNameFromConfigFile of
                Inl err \<Rightarrow> Inl err
              | Inr (Str interpolated) \<Rightarrow> Inr interpolated
              | Inr _ \<Rightarrow> Inl (Panic ''interface conversion'')))
      else Inr pjNameFromConfigFile)"

text \<open>
  The function \<^verbatim>\<open>projectName\<close> (the field of \<^verbatim>\<open>Options\<close> has the name already).
\<close>

definition projectName_func ::
  "(string \<Rightarrow> error + mapping) \<Rightarrow> ('i \<Rightarrow> string \<Rightarrow> error + yaml) \<Rightarrow> ConfigDetails \<Rightarrow> 'i Options
     \<Rightarrow> error + string" where
  "projectName_func ParseYAML Interpolate_name details opts =
     (case GetProjectName opts of (name, imperativelySet) \<Rightarrow>
        if \<not> imperativelySet then
          (case nameFromConfigFiles ParseYAML (ConfigFiles details) [] of
             None \<Rightarrow> Inr []
           | Some pjNameFromConfigFile \<Rightarrow>
               (case interpolateName Interpolate_name opts pjNameFromConfigFile of
                  Inl err \<Rightarrow> Inl err
                | Inr raw \<Rightarrow>
                    checkProjectName
                      (if NormalizeProjectName raw \<noteq> [] then NormalizeProjectName raw else name)))
        else checkProjectName name)"

text \<open>
  For the examples: a content \<^verbatim>\<open>name: X\<close> parses to the mapping with that name; options
  with no name set and interpolation switched on; details with one config file.
\<close>

definition name_line :: "string \<Rightarrow> error + mapping" where
  "name_line content =
     (if HasPrefix content ''name: '' then Inr [(''name'', Str (drop 6 content))]
      else Inl (External ''yaml''))"

definition name_options :: "unit Options" where
  "name_options = two_loaders\<lparr>projectName := [], projectNameImperativelySet := False,
                               Interpolate := Some ()\<rparr>"

definition name_details :: "string \<Rightarrow> ConfigDetails" where
  "name_details content =
     \<lparr>WorkingDir = ''.'',
      ConfigFiles = [\<lparr>Filename = ''compose.yml'', Content = content, Config = None\<rparr>],
      Environment = []\<rparr>"

section \<open>Results\<close>

subsection \<open>Options.clone\<close>

text \<open>
  Claim C10. \<^verbatim>\<open>Options.clone\<close> returns an Options value whose
  \<^verbatim>\<open>SkipResolveEnvironment\<close> is false whatever the receiver holds, and whose every other
  field equals the receiver's.
\<close>

theorem clone_fields:
  "SkipResolveEnvironment (clone opts) = False
   \<and> SkipValidation (clone opts) = SkipValidation opts
   \<and> SkipInterpolation (clone opts) = SkipInterpolation opts
   \<and> SkipNormalization (clone opts) = SkipNormalization opts
   \<and> ResolvePaths (clone opts) = ResolvePaths opts
   \<and> ConvertWindowsPaths (clone opts) = ConvertWindowsPaths opts
   \<and> SkipConsistencyCheck (clone opts) = SkipConsistencyCheck opts
   \<and> SkipExtends (clone opts) = SkipExtends opts
   \<and> SkipInclude (clone opts) = SkipInclude opts
   \<and> Interpolate (clone opts) = Interpolate opts
   \<and> discardEnvFiles (clone opts) = discardEnvFiles opts
   \<and> projectName (clone opts) = projectName opts
   \<and> projectNameImperativelySet (clone opts) = projectNameImperativelySet opts
   \<and> Profiles (clone opts) = Profiles opts
   \<and> ResourceLoaders (clone opts) = ResourceLoaders opts"
  by (simp add: clone_def)

subsection \<open>The cycle tracker\<close>

lemma Add_loop_eq:
  "Add_loop xs ct t =
     (if t \<in> set xs then
        (case loaded ct of
           [] \<Rightarrow> Inl (Panic ''index out of range'')
         | first # others \<Rightarrow> Inl (CircularReference (Join (errLines first others t) newline)))
      else Inr (ct\<lparr>loaded := loaded ct @ [t]\<rparr>))"
  by (induction xs) auto

lemma Join_Cons: "Join (x # xs) sep = x @ concat (map (\<lambda>y. sep @ y) xs)"
  by (induction xs arbitrary: x) auto

text \<open>
  \<^verbatim>\<open>Add\<close> by itself: it returns an error exactly when an equal node is already tracked,
  and appends the node otherwise. The message is the header line, the line of the first
  tracked node and one \<^verbatim>\<open>extends\<close> line for every later node and for the node that was
  added, each after a line feed.
\<close>

lemma Add_message:
  "Add ct f s =
     (if \<lparr>filename = f, service = s\<rparr> \<in> set (loaded ct)
      then Inl (CircularReference
             (''Circular reference:'' @ [CHR 0x0A] @ ''  '' @ service (hd (loaded ct)) @ '' in ''
                @ filename (hd (loaded ct))
                @ concat (map (\<lambda>r. [CHR 0x0A] @ ''  extends '' @ service r @ '' in '' @ filename r)
                            (tl (loaded ct) @ [\<lparr>filename = f, service = s\<rparr>]))))
      else Inr (ct\<lparr>loaded := loaded ct @ [\<lparr>filename = f, service = s\<rparr>]\<rparr>))"
  by (cases "loaded ct")
     (auto simp: Add_def Add_loop_eq errLines_def Join_Cons newline_def comp_def)

subsection \<open>The merge rules\<close>

text \<open>No path matches two patterns of the table, so the order of the table does not matter.\<close>

lemma Matches_length: "Matches p pat \<Longrightarrow> length p = length pat"
  by (induction p pat rule: Matches.induct) auto

lemma Matches_nth:
  "Matches p pat \<Longrightarrow> i < length pat \<Longrightarrow> pat ! i \<noteq> ''*'' \<Longrightarrow> p ! i = pat ! i"
proof (induction p pat arbitrary: i rule: Matches.induct)
  case (2 part parts pat pats)
  then show ?case by (cases i) auto
qed auto

lemma mergeSpecials_unique:
  assumes "(pat1, m1) \<in> set mergeSpecials" and "(pat2, m2) \<in> set mergeSpecials"
    and "Matches p pat1" and "Matches p pat2"
  shows "pat1 = pat2 \<and> m1 = m2"
proof -
  have "distinct (map (\<lambda>x. fst x ! 2) mergeSpecials)"
    by (simp add: mergeSpecials_def)
  then have inj: "inj_on (\<lambda>x. fst x ! 2) (set mergeSpecials)"
    by (simp add: distinct_map)
  have t: "\<forall>x\<in>set mergeSpecials. 2 < length (fst x) \<and> fst x ! 2 \<noteq> ''*''"
    by (simp add: mergeSpecials_def)
  from t assms(1) Matches_nth[OF assms(3), of 2] have "p ! 2 = pat1 ! 2" by fastforce
  moreover from t assms(2) Matches_nth[OF assms(4), of 2] have "p ! 2 = pat2 ! 2" by fastforce
  ultimately have "fst (pat1, m1) ! 2 = fst (pat2, m2) ! 2" by simp
  with inj assms(1,2) have "(pat1, m1) = (pat2, m2)"
    by (meson inj_onD)
  then show ?thesis by simp
qed

lemma Matches_environment:
  "Matches p [''services'', ''*'', ''environment''] \<longleftrightarrow> (\<exists>s. p = [''services'', s, ''environment''])"
  apply (cases p; simp)
  subgoal for a p1 apply (cases p1; simp)
    subgoal for b p2 apply (cases p2; simp)
      subgoal for c p3 by (cases p3; auto)
      done
    done
  done

lemma special_environment:
  "Matches p [''services'', ''*'', ''environment''] \<Longrightarrow>
   special mergeSpecials p = Some mergeEnvironment"
  by (auto simp: Matches_environment mergeSpecials_def)

text \<open>
  Claim C1, at the input where the code departs from it. At the path
  \<^verbatim>\<open>services.web.ulimits.nofile\<close>, with the base \<^verbatim>\<open>{soft: 1024, hard: 2048}\<close> and the
  override \<^verbatim>\<open>{soft: 4096}\<close>, both of them mappings, \<^verbatim>\<open>mergeYaml\<close> returns
  \<^verbatim>\<open>{soft: 4096}\<close>: the base entry \<^verbatim>\<open>hard\<close> is lost, where the key-union merge of the
  two mappings keeps it. At such a path the result does not depend on the base at all.
\<close>

theorem mergeUlimit_ignores_base:
  "mergeYaml fmt (Map [(''soft'', Integer 1024), (''hard'', Integer 2048)])
      (Map [(''soft'', Integer 4096)]) [''services'', ''web'', ''ulimits'', ''nofile'']
     = Inr (Map [(''soft'', Integer 4096)])
   \<and> mergeMappings fmt [(''soft'', Integer 1024), (''hard'', Integer 2048)]
      [(''soft'', Integer 4096)] [''services'', ''web'', ''ulimits'', ''nofile'']
     = Inr [(''soft'', Integer 4096), (''hard'', Integer 2048)]
   \<and> mergeYaml fmt e ov [''services'', s, ''ulimits'', u]
     = mergeYaml fmt e' ov [''services'', s, ''ulimits'', u]"
  by (simp add: mergeSpecials_def Next_def)

text \<open>
  Claim C3, as the specification states it, fails on a sequence operand: the base
  \<^verbatim>\<open>["B=1", "A=2"]\<close> merged with the empty sequence stays in the order it was written,
  where the sorted conversion gives \<^verbatim>\<open>A=2\<close>, \<^verbatim>\<open>B=1\<close>.
\<close>

theorem mergeEnvironment_sequence_unsorted:
  "mergeYaml (\<lambda>_. []) (Seq [Str ''B=1'', Str ''A=2'']) (Seq [])
      [''services'', ''web'', ''environment'']
     = Inr (Seq [Str ''B=1'', Str ''A=2''])
   \<and> spec_mergeEnvironment (\<lambda>_. []) (Seq [Str ''B=1'', Str ''A=2'']) (Seq [])
     = Seq [Str ''A=2'', Str ''B=1'']"
  by (simp add: mergeSpecials_def convertIntoSequence_def spec_mergeEnvironment_def
      spec_convertIntoSequence_def)

lemma convert_string_values:
  assumes "\<forall>(k, v)\<in>set m. v = Null \<or> (\<exists>s. v = Str s)"
  shows "map (\<lambda>(k, v). if v = Null then k else Sprintf_kv fmt k v) m
       = map (\<lambda>(k, v). case v of Str s \<Rightarrow> k @ ''='' @ s | _ \<Rightarrow> k) m"
  using assms by (induction m) (auto simp: Sprintf_kv_def)

text \<open>
  Claim C3, amended. At any path matching \<^verbatim>\<open>services.*.environment\<close> the result is the
  converted base followed by the converted override. A mapping whose values are strings
  or null is converted into the ascending sequence of its entries, an entry with the
  string value \<^verbatim>\<open>VALUE\<close> written \<^verbatim>\<open>KEY=VALUE\<close> and an entry with a null value written
  \<^verbatim>\<open>KEY\<close>; a sequence is taken as it is, without sorting; a scalar operand converts to
  the empty sequence. Merging the mapping \<^verbatim>\<open>{A: "1", B: "2"}\<close> with the sequence
  \<^verbatim>\<open>["B=3", "C=4"]\<close> yields \<^verbatim>\<open>A=1\<close>, \<^verbatim>\<open>B=2\<close>, \<^verbatim>\<open>B=3\<close>, \<^verbatim>\<open>C=4\<close> in that order. What
  is written for a value that is neither a string nor null is not part of the statement.
\<close>

theorem mergeEnvironment_concat:
  assumes "Matches p [''services'', ''*'', ''environment'']"
  shows "mergeYaml fmt c ov p = Inr (Seq (convertIntoSequence fmt c @ convertIntoSequence fmt ov))
    \<and> ((\<forall>(k, v)\<in>set m. v = Null \<or> (\<exists>s. v = Str s)) \<longrightarrow>
         convertIntoSequence fmt (Map m)
           = map Str (sort (map (\<lambda>(k, v). case v of Str s \<Rightarrow> k @ ''='' @ s | _ \<Rightarrow> k) m)))
    \<and> convertIntoSequence fmt (Seq vs) = vs
    \<and> convertIntoSequence fmt Null = [] \<and> convertIntoSequence fmt (Bool b) = []
    \<and> convertIntoSequence fmt (Integer i) = [] \<and> convertIntoSequence fmt (Flt x) = []
    \<and> convertIntoSequence fmt (Str s) = []
    \<and> mergeYaml fmt (Map [(''A'', Str ''1''), (''B'', Str ''2'')]) (Seq [Str ''B=3'', Str ''C=4'']) p
        = Inr (Seq [Str ''A=1'', Str ''B=2'', Str ''B=3'', Str ''C=4''])"
proof -
  have a: "mergeYaml fmt c ov p = Inr (Seq (convertIntoSequence fmt c @ convertIntoSequence fmt ov))"
    for c ov
    using special_environment[OF assms] by simp
  have b: "convertIntoSequence fmt (Map m)
           = map Str (sort (map (\<lambda>(k, v). case v of Str s \<Rightarrow> k @ ''='' @ s | _ \<Rightarrow> k) m))"
    if "\<forall>(k, v)\<in>set m. v = Null \<or> (\<exists>s. v = Str s)"
  proof -
    have "convertIntoSequence fmt (Map m)
        = map Str (sort (map (\<lambda>(k, v). if v = Null then k else Sprintf_kv fmt k v) m))"
      by (simp add: convertIntoSequence_def)
    then show ?thesis
      by (simp only: convert_string_values[OF that])
  qed
  have c: "mergeYaml fmt (Map [(''A'', Str ''1''), (''B'', Str ''2'')]) (Seq [Str ''B=3'', Str ''C=4'']) p
        = Inr (Seq [Str ''A=1'', Str ''B=2'', Str ''B=3'', Str ''C=4''])"
    unfolding a by (simp add: convertIntoSequence_def Sprintf_kv_def)
  have d: "convertIntoSequence fmt (Seq vs) = vs
    \<and> convertIntoSequence fmt Null = [] \<and> convertIntoSequence fmt (Bool b) = []
    \<and> convertIntoSequence fmt (Integer i) = [] \<and> convertIntoSequence fmt (Flt x) = []
    \<and> convertIntoSequence fmt (Str s) = []"
    by (simp add: convertIntoSequence_def)
  from a b c d show ?thesis by blast
qed

theorem mergeEnvironment_concat_witness:
  "Matches [''services'', ''web'', ''environment''] [''services'', ''*'', ''environment'']
   \<and> mergeYaml (\<lambda>_. []) (Map [(''B'', Str ''2''), (''DEBUG'', Null), (''A'', Str ''1'')])
        (Seq [Str ''B=3'', Str ''C=4'']) [''services'', ''web'', ''environment'']
      = Inr (Seq [Str ''A=1'', Str ''B=2'', Str ''DEBUG'', Str ''B=3'', Str ''C=4''])"
proof -
  have m: "Matches [''services'', ''web'', ''environment''] [''services'', ''*'', ''environment'']"
    by simp
  have v: "\<forall>(k, v)\<in>set [(''B'', Str ''2''), (''DEBUG'', Null), (''A'', Str ''1'')].
             v = Null \<or> (\<exists>s. v = Str s)"
    by simp
  note t = mergeEnvironment_concat [OF m, of "\<lambda>_. []"
      "Map [(''B'', Str ''2''), (''DEBUG'', Null), (''A'', Str ''1'')]"
      "Seq [Str ''B=3'', Str ''C=4'']"
      "[(''B'', Str ''2''), (''DEBUG'', Null), (''A'', Str ''1'')]" "[Str ''B=3'', Str ''C=4'']"]
  from t v have "mergeYaml (\<lambda>_. []) (Map [(''B'', Str ''2''), (''DEBUG'', Null), (''A'', Str ''1'')])
        (Seq [Str ''B=3'', Str ''C=4'']) [''services'', ''web'', ''environment'']
      = Inr (Seq (map Str (sort [''B=2'', ''DEBUG'', ''A=1'']) @ [Str ''B=3'', Str ''C=4'']))"
    by (simp del: mergeYaml.simps)
  moreover have "sort [''B=2'', ''DEBUG'', ''A=1''] = [''A=1'', ''B=2'', ''DEBUG'']"
    by simp
  ultimately show ?thesis using m by (simp del: mergeYaml.simps)
qed

text \<open>
  Claim C9, at the input where the code departs from it. The accumulator is
  \<^verbatim>\<open>{services: {web: {ulimits: {nofile: 5}}}}\<close> and the override is
  \<^verbatim>\<open>{services: {web: {ulimits: {nofile: {a: [1]}}}}}\<close>. \<^verbatim>\<open>Merge\<close> returns the
  accumulator without error, and the override has changed: its sequence \<^verbatim>\<open>a\<close> is now
  \<^verbatim>\<open>[1, 1]\<close>, because \<^verbatim>\<open>mergeUlimit\<close> merges the override's mapping into itself.
\<close>

theorem Merge_mutates_override:
  "tree_of 10 ulimit_store (VMap 4) =
     Some (Map [(''services'', Map [(''web'', Map [(''ulimits'',
             Map [(''nofile'', Map [(''a'', Seq [Integer 1])])])])])])
   \<and> Merge_st 10 fmt ulimit_store 0 4 =
     Some (Inr 0, ulimit_store[3 := [(''nofile'', VMap 8)],
                               8 := [(''a'', VSeq [VInteger 1, VInteger 1])]])
   \<and> tree_of 10 (ulimit_store[3 := [(''nofile'', VMap 8)],
                               8 := [(''a'', VSeq [VInteger 1, VInteger 1])]]) (VMap 4) =
     Some (Map [(''services'', Map [(''web'', Map [(''ulimits'',
             Map [(''nofile'', Map [(''a'', Seq [Integer 1, Integer 1])])])])])])"
  by (simp add: ulimit_store_def Merge_st_def mergeSpecials_def NewPath_def Next_def deref_def
      assign_def eval_nat_numeral)

subsection \<open>The extends resolver\<close>

lemma map_of_upd: "map_of (upd k v m) k' = (if k' = k then Some v else map_of m k')"
  by (induction m) auto

lemma map_of_del: "map_of (del k m) k' = (if k' = k then None else map_of m k')"
  by (induction m) auto

lemma ApplyExtends_service_upd:
  "ApplyExtends_service ext ctx workingdir opts post services name svc x ct log = Inr (services', ct', log')
   \<Longrightarrow> \<exists>merged. services' = upd name (Map (del ''extends'' merged)) services"
  by (auto simp: ApplyExtends_service_def split: option.splits sum.splits prod.splits yaml.splits)

lemma services_step_cases:
  assumes "ApplyExtends_services ext ctx workingdir opts post (name # names) services ct log = Inr r"
  shows "(\<exists>services1 ct1 log1.
            ApplyExtends_services ext ctx workingdir opts post names services1 ct1 log1 = Inr r
            \<and> (services1 = services \<and> (map_of services name = None \<or> no_extends services name)
               \<or> (\<exists>merged. services1 = upd name (Map (del ''extends'' merged)) services
                    \<and> map_of services name \<noteq> None)))"
  using assms
  by (auto simp: no_extends_def split: option.splits yaml.splits sum.splits prod.splits
      dest!: ApplyExtends_service_upd)

lemma services_stable:
  "ApplyExtends_services ext ctx workingdir opts post names services ct log = Inr (services', ct', log')
   \<Longrightarrow> no_extends services k \<Longrightarrow> no_extends services' k"
proof (induction names arbitrary: services ct log)
  case Nil
  then show ?case by simp
next
  case (Cons name names)
  from services_step_cases[OF Cons.prems(1)] obtain services1 ct1 log1 where
    r: "ApplyExtends_services ext ctx workingdir opts post names services1 ct1 log1 = Inr (services', ct', log')"
    and s: "services1 = services \<or> (\<exists>merged. services1 = upd name (Map (del ''extends'' merged)) services)"
    by blast
  from s Cons.prems(2) have "no_extends services1 k"
    by (auto simp: no_extends_def map_of_upd map_of_del)
  with Cons.IH[OF r] show ?case .
qed

lemma services_dom:
  "ApplyExtends_services ext ctx workingdir opts post names services ct log = Inr (services', ct', log')
   \<Longrightarrow> map_of services' k = None \<longleftrightarrow> map_of services k = None"
proof (induction names arbitrary: services ct log)
  case Nil
  then show ?case by simp
next
  case (Cons name names)
  from services_step_cases[OF Cons.prems(1)] obtain services1 ct1 log1 where
    r: "ApplyExtends_services ext ctx workingdir opts post names services1 ct1 log1 = Inr (services', ct', log')"
    and s: "services1 = services
      \<or> (\<exists>merged. services1 = upd name (Map (del ''extends'' merged)) services
            \<and> map_of services name \<noteq> None)"
    by blast
  from s have "map_of services1 k = None \<longleftrightarrow> map_of services k = None"
    by (auto simp: map_of_upd split: if_splits)
  with Cons.IH[OF r] show ?case by simp
qed

lemma services_visited:
  "ApplyExtends_services ext ctx workingdir opts post names services ct log = Inr (services', ct', log')
   \<Longrightarrow> k \<in> set names \<Longrightarrow> map_of services k \<noteq> None \<Longrightarrow> no_extends services' k"
proof (induction names arbitrary: services ct log)
  case Nil
  then show ?case by simp
next
  case (Cons name names)
  from services_step_cases[OF Cons.prems(1)] obtain services1 ct1 log1 where
    r: "ApplyExtends_services ext ctx workingdir opts post names services1 ct1 log1 = Inr (services', ct', log')"
    and s: "services1 = services \<and> (map_of services name = None \<or> no_extends services name)
      \<or> (\<exists>merged. services1 = upd name (Map (del ''extends'' merged)) services)"
    by blast
  show ?case
  proof (cases "k = name")
    case True
    with s Cons.prems(3) have "no_extends services1 k"
      by (auto simp: no_extends_def map_of_upd map_of_del)
    with services_stable[OF r] show ?thesis .
  next
    case False
    with Cons.prems(2) have k: "k \<in> set names" by simp
    from s Cons.prems(3) have "map_of services1 k \<noteq> None"
      by (auto simp: map_of_upd)
    with Cons.IH[OF r k] show ?thesis .
  qed
qed

text \<open>
  Claim C5. After \<^verbatim>\<open>ApplyExtends\<close> returns without error on a tree that contains a
  services mapping, the tree still has a services mapping and no entry of it contains an
  \<^verbatim>\<open>extends\<close> key (every entry is a mapping).
\<close>

theorem ApplyExtends_removes_extends:
  assumes "ApplyExtends ext ctx dict workingdir opts ct post = Inr (dict', ct', log)"
    and "map_of dict ''services'' = Some (Map services)"
  shows "\<exists>services'. map_of dict' ''services'' = Some (Map services')
           \<and> (\<forall>name s. map_of services' name = Some s \<longrightarrow>
                 (\<exists>m. s = Map m \<and> map_of m ''extends'' = None))"
proof -
  from assms obtain services' where
    r: "ApplyExtends_services ext ctx workingdir opts post (map fst services) services ct [] = Inr (services', ct', log)"
    and d: "dict' = upd ''services'' (Map services') dict"
    by (auto simp: ApplyExtends_def split: sum.splits prod.splits)
  have "\<exists>m. s = Map m \<and> map_of m ''extends'' = None" if n: "map_of services' name = Some s" for name s
  proof -
    from n services_dom[OF r, of name] have "map_of services name \<noteq> None" by auto
    moreover from this have "name \<in> set (map fst services)"
      by (auto simp: map_of_eq_None_iff)
    ultimately have "no_extends services' name" using services_visited[OF r] by blast
    with n show ?thesis by (auto simp: no_extends_def)
  qed
  with d show ?thesis by (auto simp: map_of_upd)
qed


theorem ApplyExtends_removes_extends_witness:
  "ApplyExtends file_externals (Some ''compose.yml'')
     [(''services'', Map [(''web'', Map [(''extends'', Str ''base''), (''image'', Str ''w'')]),
                          (''base'', Map [(''image'', Str ''b''), (''command'', Str ''c'')])])]
     ''.'' two_loaders \<lparr>loaded = []\<rparr> []
   = Inr ([(''services'', Map [(''web'', Map [(''image'', Str ''w''), (''command'', Str ''c'')]),
                               (''base'', Map [(''image'', Str ''b''), (''command'', Str ''c'')])])],
          \<lparr>loaded = [\<lparr>filename = ''compose.yml'', service = ''web''\<rparr>]\<rparr>, [])
   \<and> (\<exists>services'.
         map_of [(''services'', Map [(''web'', Map [(''image'', Str ''w''), (''command'', Str ''c'')]),
                                     (''base'', Map [(''image'', Str ''b''), (''command'', Str ''c'')])])]
           ''services'' = Some (Map services')
         \<and> (\<forall>name s. map_of services' name = Some s \<longrightarrow>
               (\<exists>m. s = Map m \<and> map_of m ''extends'' = None)))"
proof -
  have run: "ApplyExtends file_externals (Some ''compose.yml'')
     [(''services'', Map [(''web'', Map [(''extends'', Str ''base''), (''image'', Str ''w'')]),
                          (''base'', Map [(''image'', Str ''b''), (''command'', Str ''c'')])])]
     ''.'' two_loaders \<lparr>loaded = []\<rparr> []
   = Inr ([(''services'', Map [(''web'', Map [(''image'', Str ''w''), (''command'', Str ''c'')]),
                               (''base'', Map [(''image'', Str ''b''), (''command'', Str ''c'')])])],
          \<lparr>loaded = [\<lparr>filename = ''compose.yml'', service = ''web''\<rparr>]\<rparr>, [])"
    by (simp add: ApplyExtends_def ApplyExtends_service_def ApplyExtends_base_def
        extends_target_def index_def Add_def file_externals_def two_loaders_def
        ExtendService_spec_def mergeSpecials_def Next_def)
  have svc: "map_of [(''services'', Map [(''web'', Map [(''extends'', Str ''base''), (''image'', Str ''w'')]),
                          (''base'', Map [(''image'', Str ''b''), (''command'', Str ''c'')])])] ''services''
      = Some (Map [(''web'', Map [(''extends'', Str ''base''), (''image'', Str ''w'')]),
                   (''base'', Map [(''image'', Str ''b''), (''command'', Str ''c'')])])"
    by simp
  from ApplyExtends_removes_extends [OF run svc] run show ?thesis
    by simp
qed

text \<open>
  Claim C2, at the input where the code departs from it. A service extends \<^verbatim>\<open>base\<close>
  from the file \<^verbatim>\<open>base.yml\<close>, and two loaders are registered that both accept the path.
  \<^verbatim>\<open>Load\<close> is called on the first loader and then on the second one as well, and the
  base comes from the file of the second, the last accepting loader.
\<close>

theorem ApplyExtends_loads_every_accepting_loader:
  "ApplyExtends file_externals (Some ''compose.yml'')
     [(''services'', Map [(''web'', Map [(''extends'',
         Map [(''service'', Str ''base''), (''file'', Str ''base.yml'')])])])]
     ''.'' two_loaders \<lparr>loaded = []\<rparr> []
   = Inr ([(''services'', Map [(''web'', Map [(''image'', Str ''/local/base.yml'')])])],
          \<lparr>loaded = [\<lparr>filename = ''compose.yml'', service = ''web''\<rparr>]\<rparr>,
          [AcceptCall 0 ''base.yml'', LoadCall 0 ''base.yml'',
           AcceptCall 1 ''base.yml'', LoadCall 1 ''base.yml''])"
  by (simp add: ApplyExtends_def ApplyExtends_service_def ApplyExtends_base_def
      extends_target_def index_def Add_def file_externals_def two_loaders_def
      ExtendService_spec_def mergeSpecials_def Next_def clone_def)

text \<open>
  Claim C4, at the input where the code departs from it. In one file \<^verbatim>\<open>a\<close> extends
  \<^verbatim>\<open>b\<close> and \<^verbatim>\<open>b\<close> extends \<^verbatim>\<open>a\<close>. \<^verbatim>\<open>ApplyExtends\<close> returns without error, in
  either order of the two services and whatever the merge of a base and a service yields:
  it calls \<^verbatim>\<open>Add\<close> once for \<^verbatim>\<open>a\<close> and once for \<^verbatim>\<open>b\<close> and reads the base of each from
  the services at hand, so no node is added twice. \<^verbatim>\<open>Add\<close> itself does raise the error
  of the claim when \<^verbatim>\<open>a\<close> is added to a tracker that holds \<^verbatim>\<open>a\<close> and \<^verbatim>\<open>b\<close>: the
  header and the three lines naming \<^verbatim>\<open>a\<close>, \<^verbatim>\<open>b\<close>, \<^verbatim>\<open>a\<close>; in general it returns
  the error exactly when an equal node is tracked and appends the node otherwise.
\<close>

theorem ApplyExtends_same_file_cycle:
  "ApplyExtends file_externals (Some ''compose.yml'')
     [(''services'', Map [(''a'', Map [(''extends'', Str ''b'')]),
                          (''b'', Map [(''extends'', Str ''a'')])])]
     ''.'' two_loaders \<lparr>loaded = []\<rparr> []
   = Inr ([(''services'', Map [(''a'', Map []), (''b'', Map [])])],
          \<lparr>loaded = [\<lparr>filename = ''compose.yml'', service = ''a''\<rparr>,
                     \<lparr>filename = ''compose.yml'', service = ''b''\<rparr>]\<rparr>, [])
   \<and> ApplyExtends file_externals (Some ''compose.yml'')
     [(''services'', Map [(''b'', Map [(''extends'', Str ''a'')]),
                          (''a'', Map [(''extends'', Str ''b'')])])]
     ''.'' two_loaders \<lparr>loaded = []\<rparr> []
   = Inr ([(''services'', Map [(''b'', Map []), (''a'', Map [])])],
          \<lparr>loaded = [\<lparr>filename = ''compose.yml'', service = ''b''\<rparr>,
                     \<lparr>filename = ''compose.yml'', service = ''a''\<rparr>]\<rparr>, [])
   \<and> (\<exists>dict' ct' log.
        ApplyExtends (ext\<lparr>ExtendService := \<lambda>src svc. Inr (f src svc)\<rparr>) (Some file)
          [(''services'', Map [(''a'', Map [(''extends'', Str ''b'')]),
                               (''b'', Map [(''extends'', Str ''a'')])])]
          workingdir opts \<lparr>loaded = []\<rparr> post = Inr (dict', ct', log))
   \<and> Add \<lparr>loaded = [\<lparr>filename = ''compose.yml'', service = ''a''\<rparr>,
                     \<lparr>filename = ''compose.yml'', service = ''b''\<rparr>]\<rparr> ''compose.yml'' ''a''
     = Inl (CircularReference
         (''Circular reference:'' @ [CHR 0x0A]
          @ ''  a in compose.yml'' @ [CHR 0x0A]
          @ ''  extends b in compose.yml'' @ [CHR 0x0A]
          @ ''  extends a in compose.yml''))
   \<and> Add ct g s =
     (if \<lparr>filename = g, service = s\<rparr> \<in> set (loaded ct)
      then Inl (CircularReference
             (''Circular reference:'' @ [CHR 0x0A] @ ''  '' @ service (hd (loaded ct)) @ '' in ''
                @ filename (hd (loaded ct))
                @ concat (map (\<lambda>r. [CHR 0x0A] @ ''  extends '' @ service r @ '' in '' @ filename r)
                            (tl (loaded ct) @ [\<lparr>filename = g, service = s\<rparr>]))))
      else Inr (ct\<lparr>loaded := loaded ct @ [\<lparr>filename = g, service = s\<rparr>]\<rparr>))"
proof -
  have 1: "ApplyExtends file_externals (Some ''compose.yml'')
     [(''services'', Map [(''a'', Map [(''extends'', Str ''b'')]),
                          (''b'', Map [(''extends'', Str ''a'')])])]
     ''.'' two_loaders \<lparr>loaded = []\<rparr> []
   = Inr ([(''services'', Map [(''a'', Map []), (''b'', Map [])])],
          \<lparr>loaded = [\<lparr>filename = ''compose.yml'', service = ''a''\<rparr>,
                     \<lparr>filename = ''compose.yml'', service = ''b''\<rparr>]\<rparr>, [])"
    by (simp add: ApplyExtends_def ApplyExtends_service_def ApplyExtends_base_def
        extends_target_def index_def Add_def file_externals_def two_loaders_def
        ExtendService_spec_def mergeSpecials_def Next_def)
  have 2: "ApplyExtends file_externals (Some ''compose.yml'')
     [(''services'', Map [(''b'', Map [(''extends'', Str ''a'')]),
                          (''a'', Map [(''extends'', Str ''b'')])])]
     ''.'' two_loaders \<lparr>loaded = []\<rparr> []
   = Inr ([(''services'', Map [(''b'', Map []), (''a'', Map [])])],
          \<lparr>loaded = [\<lparr>filename = ''compose.yml'', service = ''b''\<rparr>,
                     \<lparr>filename = ''compose.yml'', service = ''a''\<rparr>]\<rparr>, [])"
    by (simp add: ApplyExtends_def ApplyExtends_service_def ApplyExtends_base_def
        extends_target_def index_def Add_def file_externals_def two_loaders_def
        ExtendService_spec_def mergeSpecials_def Next_def)
  have 3: "\<exists>dict' ct' log.
        ApplyExtends (ext\<lparr>ExtendService := \<lambda>src svc. Inr (f src svc)\<rparr>) (Some file)
          [(''services'', Map [(''a'', Map [(''extends'', Str ''b'')]),
                               (''b'', Map [(''extends'', Str ''a'')])])]
          workingdir opts \<lparr>loaded = []\<rparr> post = Inr (dict', ct', log)"
    by (simp add: ApplyExtends_def ApplyExtends_service_def ApplyExtends_base_def
        extends_target_def index_def Add_def)
  have 4: "Add \<lparr>loaded = [\<lparr>filename = ''compose.yml'', service = ''a''\<rparr>,
                     \<lparr>filename = ''compose.yml'', service = ''b''\<rparr>]\<rparr> ''compose.yml'' ''a''
     = Inl (CircularReference
         (''Circular reference:'' @ [CHR 0x0A]
          @ ''  a in compose.yml'' @ [CHR 0x0A]
          @ ''  extends b in compose.yml'' @ [CHR 0x0A]
          @ ''  extends a in compose.yml''))"
    by (simp add: Add_def errLines_def newline_def)
  note 5 = Add_message [of ct g s]
  from 1 2 3 4 5 show ?thesis by blast
qed

subsection \<open>The project name\<close>

lemma lower_name_char: "name_char c \<Longrightarrow> lower c = c"
  by (auto simp: name_char_def lower_def less_eq_char_def)

lemma name_char_not_lead: "name_char c \<Longrightarrow> c \<noteq> CHR 0xE2 \<and> c \<noteq> CHR 0xC4"
  by (auto simp: name_char_def less_eq_char_def)

lemma ToLower_name_chars: "list_all name_char s \<Longrightarrow> ToLower s = s"
  by (induction s rule: ToLower.induct) (auto simp: lower_name_char dest: name_char_not_lead)

lemma NormalizeProjectName_idem:
  "NormalizeProjectName (NormalizeProjectName s) = NormalizeProjectName s"
proof -
  let ?t = "NormalizeProjectName s"
  have "set ?t \<subseteq> set (filter name_char (ToLower s))"
    unfolding NormalizeProjectName_def by (rule set_dropWhileD[THEN subsetI])
  then have all: "list_all name_char ?t"
    by (auto simp: list_all_iff)
  then have "filter name_char (ToLower ?t) = ?t"
    by (simp add: ToLower_name_chars list_all_iff)
  then have "NormalizeProjectName ?t = dropWhile (\<lambda>c. c = CHR ''_'' \<or> c = CHR ''-'') ?t"
    by (simp add: NormalizeProjectName_def[of ?t])
  also have "\<dots> = ?t"
    by (simp add: NormalizeProjectName_def)
  finally show ?thesis .
qed

text \<open>
  Claim C8, amended. When the name was not imperatively set and the config files yield the
  name \<open>n\<close>, interpolated to \<open>raw\<close>: if the image of \<open>raw\<close> under the normalization
  function is not empty, that image is the project name and no error is returned, also
  when \<open>raw\<close> differs from it. Otherwise the name held by the options is used, and the
  result is the \<^verbatim>\<open>invalid project name\<close> error exactly when that name is not empty and
  differs from its image under normalization.
\<close>

theorem projectName_from_config_files:
  assumes "\<not> projectNameImperativelySet opts"
    and "nameFromConfigFiles ParseYAML (ConfigFiles details) [] = Some n"
    and "interpolateName Interpolate_name opts n = Inr raw"
  shows "projectName_func ParseYAML Interpolate_name details opts =
     (if NormalizeProjectName raw \<noteq> [] then Inr (NormalizeProjectName raw)
      else if projectName opts = [] then Inl EmptyProjectName
      else if NormalizeProjectName (projectName opts) \<noteq> projectName opts
        then Inl (InvalidProjectName (projectName opts))
      else Inr (projectName opts))"
  using assms
  by (simp add: projectName_func_def GetProjectName_def checkProjectName_def
      NormalizeProjectName_idem)

text \<open>
  Claim C8, as the specification states it, fails: the config file names the project
  \<^verbatim>\<open>MyApp\<close>, which is not empty and differs from its image \<^verbatim>\<open>myapp\<close>, and the name is
  not imperatively set; the derivation returns \<^verbatim>\<open>myapp\<close> and no error.
\<close>

theorem projectName_MyApp:
  "projectName_func name_line (\<lambda>io s. Inr (Str s)) (name_details ''name: MyApp'') name_options
     = Inr ''myapp''
   \<and> NormalizeProjectName ''MyApp'' = ''myapp''"
  by code_simp

theorem projectName_from_config_files_witness:
  "\<not> projectNameImperativelySet name_options
   \<and> nameFromConfigFiles name_line (ConfigFiles (name_details ''name: MyApp'')) [] = Some ''MyApp''
   \<and> interpolateName (\<lambda>io s. Inr (Str s)) name_options ''MyApp'' = Inr ''MyApp''
   \<and> projectName_func name_line (\<lambda>io s. Inr (Str s)) (name_details ''name: MyApp'') name_options
       = Inr (NormalizeProjectName ''MyApp'')"
proof -
  have a: "\<not> projectNameImperativelySet name_options"
    by (simp add: name_options_def two_loaders_def)
  have b: "nameFromConfigFiles name_line (ConfigFiles (name_details ''name: MyApp'')) [] = Some ''MyApp''"
    by (simp add: name_line_def name_details_def)
  have c: "interpolateName (\<lambda>io s. Inr (Str s)) name_options ''MyApp'' = Inr ''MyApp''"
    by (simp add: interpolateName_def name_options_def two_loaders_def)
  have d: "NormalizeProjectName ''MyApp'' \<noteq> []"
    by (simp add: NormalizeProjectName_def name_char_def lower_def less_eq_char_def)
  from projectName_from_config_files [OF a b c] a b c d show ?thesis
    by simp
qed

subsection \<open>Grouping extensions\<close>

lemma Matches_single: "Matches [k] p \<longleftrightarrow> p = [k] \<or> p = [''*'']"
proof (cases p)
  case Nil
  then show ?thesis by simp
next
  case (Cons a q)
  then show ?thesis by (cases q) auto
qed

text \<open>
  Claim C7, at the input where the code departs from it. A mapping under the top-level key
  \<^verbatim>\<open>*\<close> has the path \<^verbatim>\<open>*\<close>, which is none of the user-defined key scopes, and yet its
  key \<^verbatim>\<open>x-foo\<close> stays where it is, while the same key under \<^verbatim>\<open>web\<close> is moved into
  \<^verbatim>\<open>web.extensions\<close>. The two cases of the claim hold: \<^verbatim>\<open>x-foo\<close> directly under
  \<^verbatim>\<open>services\<close> stays, \<^verbatim>\<open>x-foo\<close> under \<^verbatim>\<open>services.web\<close> is moved. Nothing is moved
  exactly at the five scopes and at the path \<^verbatim>\<open>*\<close>.
\<close>

theorem groupXFieldsIntoExtensions_star:
  "groupXFieldsIntoExtensions
     [(''*'', Map [(''x-foo'', Str ''bar'')]), (''web'', Map [(''x-foo'', Str ''bar'')])] NewPath
     = [(''*'', Map [(''x-foo'', Str ''bar'')]),
        (''web'', Map [(''extensions'', Map [(''x-foo'', Str ''bar'')])])]
   \<and> groupXFieldsIntoExtensions
       [(''services'', Map [(''x-foo'', Map [(''image'', Str ''i'')]),
                            (''web'', Map [(''x-foo'', Str ''bar''), (''image'', Str ''i'')])])] NewPath
     = [(''services'', Map [(''x-foo'', Map [(''image'', Str ''i'')]),
                            (''web'', Map [(''image'', Str ''i''),
                                           (''extensions'', Map [(''x-foo'', Str ''bar'')])])])]
   \<and> (skip p \<longleftrightarrow> p \<in> set userDefinedKeys \<or> p = [''*''])"
  by (auto simp: skip_def userDefinedKeys_def NewPath_def Next_def Extensions_def Matches_single)

subsection \<open>Canonical ports\<close>

lemma encode_all_acc:
  "encode_all encode parsed ports =
     (case encode_all encode parsed [] of Inl err \<Rightarrow> Inl err | Inr ms \<Rightarrow> Inr (ports @ ms))"
proof (induction parsed arbitrary: ports)
  case Nil
  then show ?case by simp
next
  case (Cons v parsed)
  show ?case
    using Cons.IH[of "ports @ [Map m]" for m] Cons.IH[of "[Map m]" for m]
    by (auto split: sum.splits)
qed

lemma encode_all_mappings:
  "encode_all encode parsed ports = Inr ports' \<Longrightarrow> list_all is_mapping ports
   \<Longrightarrow> list_all is_mapping ports'"
  by (induction parsed arbitrary: ports) (auto simp: is_mapping_def split: sum.splits)

lemma port_mappings_mappings:
  "port_mappings P E entry = Inr ms \<Longrightarrow> list_all is_mapping ms"
  by (auto simp: port_mappings_def is_mapping_def split: yaml.splits sum.splits
      dest: encode_all_mappings)

lemma entries_step:
  "transformPorts_entries P E (entry # entries) ports =
     (case port_mappings P E entry of
        Inl err \<Rightarrow> Inl err
      | Inr ms \<Rightarrow> transformPorts_entries P E entries (ports @ ms))"
  using encode_all_acc[of E _ ports]
  by (auto simp: port_mappings_def split: yaml.splits sum.splits)

lemma entries_ok:
  "\<forall>entry\<in>set entries. \<exists>ms. port_mappings P E entry = Inr ms \<Longrightarrow>
   transformPorts_entries P E entries ports =
     Inr (ports @ concat (map (\<lambda>entry. projr (port_mappings P E entry)) entries))"
proof (induction entries arbitrary: ports)
  case Nil
  then show ?case by simp
next
  case (Cons entry entries)
  then obtain ms where ms: "port_mappings P E entry = Inr ms" by auto
  from Cons have "transformPorts_entries P E entries (ports @ ms) =
     Inr ((ports @ ms) @ concat (map (\<lambda>entry. projr (port_mappings P E entry)) entries))"
    by simp
  with ms show ?case
    by (simp add: entries_step del: transformPorts_entries.simps)
qed

lemma entries_error:
  "entry \<in> set entries \<Longrightarrow> port_mappings P E entry = Inl err \<Longrightarrow>
   \<exists>err'. transformPorts_entries P E entries ports = Inl err'"
proof (induction entries arbitrary: ports)
  case Nil
  then show ?case by simp
next
  case (Cons e entries)
  show ?case
  proof (cases "port_mappings P E e")
    case (Inl a)
    then show ?thesis by (simp add: entries_step del: transformPorts_entries.simps)
  next
    case (Inr ms)
    with Cons.prems have "entry \<in> set entries" by auto
    from Cons.IH[OF this Cons.prems(2)] Inr show ?thesis
      by (simp add: entries_step del: transformPorts_entries.simps)
  qed
qed

lemma encode_all_ok:
  "\<forall>v\<in>set parsed. \<exists>m. E v = Inr m \<Longrightarrow>
   encode_all E parsed ports = Inr (ports @ map (\<lambda>v. Map (projr (E v))) parsed)"
  by (induction parsed arbitrary: ports) auto

lemma encode_all_error:
  "\<exists>v\<in>set parsed. \<exists>err. E v = Inl err \<Longrightarrow> \<exists>err. encode_all E parsed ports = Inl err"
  by (induction parsed arbitrary: ports) (auto split: sum.splits)

lemma is_mapping_iff: "is_mapping v \<longleftrightarrow> (\<exists>m. v = Map m)"
  by (cases v) (auto simp: is_mapping_def)

lemma port_mappings_text:
  "port_mappings P E (Str s) =
     (case P s of Inl err \<Rightarrow> Inl err | Inr parsed \<Rightarrow> encode_all E parsed [])"
  by (simp add: port_mappings_def)

text \<open>
  Claim C6, amended. When every entry of the sequence yields its mappings,
  \<^verbatim>\<open>transformPorts\<close> returns without error the sequence of these mappings, in the order
  of the entries, and every element is a mapping. A mapping entry yields itself,
  unchanged. A string entry that parses, with every parsed port configuration encoding
  without error, yields the encodings of all its port configurations, in their order; an
  integer entry does as the string of its decimal digits does. When parsing fails, or the
  encoding of one of the port configurations fails, or the entry is null, a boolean, a
  float or a sequence, the entry yields an error, and a sequence with such an entry makes
  \<^verbatim>\<open>transformPorts\<close> return an error. So does every input that is not a sequence.
\<close>

theorem transformPorts_mappings:
  "((\<forall>entry\<in>set entries. \<exists>ms. port_mappings P E entry = Inr ms) \<longrightarrow>
      transformPorts P E (Seq entries)
        = Inr (Seq (concat (map (\<lambda>entry. projr (port_mappings P E entry)) entries)))
      \<and> (\<forall>port\<in>set (concat (map (\<lambda>entry. projr (port_mappings P E entry)) entries)).
            \<exists>m. port = Map m))
   \<and> ((\<exists>entry\<in>set entries. \<exists>err. port_mappings P E entry = Inl err) \<longrightarrow>
        (\<exists>err. transformPorts P E (Seq entries) = Inl err))
   \<and> transformPorts P E Null = Inl (InvalidPortType ''<nil>'')
   \<and> transformPorts P E (Bool b) = Inl (InvalidPortType ''bool'')
   \<and> transformPorts P E (Integer i) = Inl (InvalidPortType ''int'')
   \<and> transformPorts P E (Flt x) = Inl (InvalidPortType ''float64'')
   \<and> transformPorts P E (Str s) = Inl (InvalidPortType ''string'')
   \<and> transformPorts P E (Map m) = Inl (InvalidPortType ''map[string]interface {}'')
   \<and> port_mappings P E (Map m) = Inr [Map m]
   \<and> ((P s = Inr parsed \<and> (\<forall>v\<in>set parsed. \<exists>m. E v = Inr m)) \<longrightarrow>
        port_mappings P E (Str s) = Inr (map (\<lambda>v. Map (projr (E v))) parsed))
   \<and> ((P s = Inr parsed \<and> (\<exists>v\<in>set parsed. \<exists>err. E v = Inl err)) \<longrightarrow>
        (\<exists>err. port_mappings P E (Str s) = Inl err))
   \<and> (P s = Inl err \<longrightarrow> port_mappings P E (Str s) = Inl err)
   \<and> port_mappings P E (Integer i) = port_mappings P E (Str (Itoa i))
   \<and> port_mappings P E Null = Inl (InvalidPortType ''<nil>'')
   \<and> port_mappings P E (Bool b) = Inl (InvalidPortType ''bool'')
   \<and> port_mappings P E (Flt x) = Inl (InvalidPortType ''float64'')
   \<and> port_mappings P E (Seq vs) = Inl (InvalidPortType ''[]interface {}'')"
proof -
  have ok: "transformPorts P E (Seq entries)
        = Inr (Seq (concat (map (\<lambda>entry. projr (port_mappings P E entry)) entries)))
      \<and> (\<forall>port\<in>set (concat (map (\<lambda>entry. projr (port_mappings P E entry)) entries)).
            \<exists>m. port = Map m)"
    if h: "\<forall>entry\<in>set entries. \<exists>ms. port_mappings P E entry = Inr ms"
  proof -
    have "list_all is_mapping (concat (map (\<lambda>entry. projr (port_mappings P E entry)) entries))"
      using h port_mappings_mappings[of P E] by (fastforce simp: list_all_iff)
    then have "\<forall>port\<in>set (concat (map (\<lambda>entry. projr (port_mappings P E entry)) entries)).
            \<exists>m. port = Map m"
      by (auto simp: list_all_iff is_mapping_iff)
    with entries_ok[OF h, of "[]"] show ?thesis
      by (simp add: transformPorts_def)
  qed
  have bad: "\<exists>err. transformPorts P E (Seq entries) = Inl err"
    if "\<exists>entry\<in>set entries. \<exists>err. port_mappings P E entry = Inl err"
    using that entries_error[of _ entries P E _ "[]"]
    by (fastforce simp: transformPorts_def)
  have other: "transformPorts P E Null = Inl (InvalidPortType ''<nil>'')
   \<and> transformPorts P E (Bool b) = Inl (InvalidPortType ''bool'')
   \<and> transformPorts P E (Integer i) = Inl (InvalidPortType ''int'')
   \<and> transformPorts P E (Flt x) = Inl (InvalidPortType ''float64'')
   \<and> transformPorts P E (Str s) = Inl (InvalidPortType ''string'')
   \<and> transformPorts P E (Map m) = Inl (InvalidPortType ''map[string]interface {}'')"
    by (simp add: transformPorts_def)
  have enc: "port_mappings P E (Str s) = Inr (map (\<lambda>v. Map (projr (E v))) parsed)"
    if "P s = Inr parsed \<and> (\<forall>v\<in>set parsed. \<exists>m. E v = Inr m)"
    using that encode_all_ok[of parsed E "[]"] by (simp add: port_mappings_text)
  have encbad: "\<exists>err. port_mappings P E (Str s) = Inl err"
    if "P s = Inr parsed \<and> (\<exists>v\<in>set parsed. \<exists>err. E v = Inl err)"
    using that encode_all_error[of parsed E "[]"] by (simp add: port_mappings_text)
  have parsebad: "port_mappings P E (Str s) = Inl err" if "P s = Inl err"
    using that by (simp add: port_mappings_text)
  have rest: "port_mappings P E (Map m) = Inr [Map m]
   \<and> port_mappings P E (Integer i) = port_mappings P E (Str (Itoa i))
   \<and> port_mappings P E Null = Inl (InvalidPortType ''<nil>'')
   \<and> port_mappings P E (Bool b) = Inl (InvalidPortType ''bool'')
   \<and> port_mappings P E (Flt x) = Inl (InvalidPortType ''float64'')
   \<and> port_mappings P E (Seq vs) = Inl (InvalidPortType ''[]interface {}'')"
    by (simp add: port_mappings_def)
  from ok bad other enc encbad parsebad rest show ?thesis
    by blast
qed

theorem transformPorts_mappings_witness:
  "transformPorts short_port encode_port
      (Seq [Str ''8080:80'', Str ''80-81'', Integer 443, Map [(''target'', Integer 1)]])
     = Inr (Seq [Map [(''mode'', Str ''ingress''), (''target'', Integer 80),
                      (''published'', Str ''8080''), (''protocol'', Str ''tcp'')],
                 Map [(''mode'', Str ''ingress''), (''target'', Integer 80),
                      (''protocol'', Str ''tcp'')],
                 Map [(''mode'', Str ''ingress''), (''target'', Integer 81),
                      (''protocol'', Str ''tcp'')],
                 Map [(''mode'', Str ''ingress''), (''target'', Integer 443),
                      (''protocol'', Str ''tcp'')],
                 Map [(''target'', Integer 1)]])
   \<and> (\<exists>err. transformPorts short_port encode_port (Seq [Integer 80, Str ''web'']) = Inl err)
   \<and> port_mappings short_port encode_port (Str ''80-81'')
     = Inr [Map [(''mode'', Str ''ingress''), (''target'', Integer 80), (''protocol'', Str ''tcp'')],
            Map [(''mode'', Str ''ingress''), (''target'', Integer 81), (''protocol'', Str ''tcp'')]]
   \<and> (\<exists>err. port_mappings short_port
               (\<lambda>v. if Target v = 81 then Inl (External ''encode'') else encode_port v)
               (Str ''80-81'') = Inl err)
   \<and> port_mappings short_port encode_port (Str ''web'') = Inl (External ''invalid port specification'')"
proof -
  let ?p = "\<lambda>t. \<lparr>Mode = ''ingress'', HostIP = [], Target = t, Published = [], Protocol = ''tcp''\<rparr>"
  let ?E = "\<lambda>v. if Target v = 81 then Inl (External ''encode'') else encode_port v"
  have range: "short_port ''80-81'' = Inr [?p 80, ?p 81]"
    by code_simp
  have web: "short_port ''web'' = Inl (External ''invalid port specification'')"
    by code_simp
  have enc: "\<forall>v\<in>set [?p 80, ?p 81]. \<exists>m. encode_port v = Inr m"
    by (simp add: encode_port_def)
  have encbad: "\<exists>v\<in>set [?p 80, ?p 81]. \<exists>err. ?E v = Inl err"
    by simp
  note t = transformPorts_mappings [where P = short_port and E = encode_port
      and s = "''80-81''" and parsed = "[?p 80, ?p 81]"]
  from t range enc have a: "port_mappings short_port encode_port (Str ''80-81'')
     = Inr [Map [(''mode'', Str ''ingress''), (''target'', Integer 80), (''protocol'', Str ''tcp'')],
            Map [(''mode'', Str ''ingress''), (''target'', Integer 81), (''protocol'', Str ''tcp'')]]"
    by (simp add: encode_port_def)
  from transformPorts_mappings [where P = short_port and E = ?E
      and s = "''80-81''" and parsed = "[?p 80, ?p 81]"] range encbad
  have b: "\<exists>err. port_mappings short_port ?E (Str ''80-81'') = Inl err"
    by blast
  from transformPorts_mappings [where P = short_port and E = encode_port
      and s = "''web''" and err = "External ''invalid port specification''"] web
  have c: "port_mappings short_port encode_port (Str ''web'') = Inl (External ''invalid port specification'')"
    by blast
  have d: "port_mappings short_port encode_port (Str ''8080:80'')
     = Inr [Map [(''mode'', Str ''ingress''), (''target'', Integer 80),
                 (''published'', Str ''8080''), (''protocol'', Str ''tcp'')]]"
    by code_simp
  have e: "port_mappings short_port encode_port (Integer 443)
     = Inr [Map [(''mode'', Str ''ingress''), (''target'', Integer 443), (''protocol'', Str ''tcp'')]]"
    by code_simp
  have f: "port_mappings short_port encode_port (Map [(''target'', Integer 1)])
     = Inr [Map [(''target'', Integer 1)]]"
    by (simp add: port_mappings_def)
  have ok: "\<forall>entry\<in>set [Str ''8080:80'', Str ''80-81'', Integer 443, Map [(''target'', Integer 1)]].
              \<exists>ms. port_mappings short_port encode_port entry = Inr ms"
    using a d e f by simp
  from transformPorts_mappings
      [where entries = "[Str ''8080:80'', Str ''80-81'', Integer 443, Map [(''target'', Integer 1)]]"
        and P = short_port and E = encode_port] ok
  have "transformPorts short_port encode_port
      (Seq [Str ''8080:80'', Str ''80-81'', Integer 443, Map [(''target'', Integer 1)]])
     = Inr (Seq (concat (map (\<lambda>entry. projr (port_mappings short_port encode_port entry))
          [Str ''8080:80'', Str ''80-81'', Integer 443, Map [(''target'', Integer 1)]])))"
    by blast
  then have r1: "transformPorts short_port encode_port
      (Seq [Str ''8080:80'', Str ''80-81'', Integer 443, Map [(''target'', Integer 1)]])
     = Inr (Seq [Map [(''mode'', Str ''ingress''), (''target'', Integer 80),
                      (''published'', Str ''8080''), (''protocol'', Str ''tcp'')],
                 Map [(''mode'', Str ''ingress''), (''target'', Integer 80),
                      (''protocol'', Str ''tcp'')],
                 Map [(''mode'', Str ''ingress''), (''target'', Integer 81),
                      (''protocol'', Str ''tcp'')],
                 Map [(''mode'', Str ''ingress''), (''target'', Integer 443),
                      (''protocol'', Str ''tcp'')],
                 Map [(''target'', Integer 1)]])"
    by (simp add: a d e f)
  have bad: "\<exists>entry\<in>set [Integer 80, Str ''web''].
              \<exists>err. port_mappings short_port encode_port entry = Inl err"
    using c by simp
  from transformPorts_mappings [where entries = "[Integer 80, Str ''web'']"
      and P = short_port and E = encode_port] bad
  have r2: "\<exists>err. transformPorts short_port encode_port (Seq [Integer 80, Str ''web'']) = Inl err"
    by blast
  from r1 r2 a b c show ?thesis by blast
qed

text \<open>
  Claim C6, as the specification states it, fails: the sequence \<^verbatim>\<open>["web"]\<close> has a
  string for its only entry, the text is no port specification, and \<^verbatim>\<open>transformPorts\<close>
  returns the error of the parser.
\<close>

theorem transformPorts_rejected_text:
  "transformPorts short_port encode_port (Seq [Str ''web''])
     = Inl (External ''invalid port specification'')"
  by (simp add: transformPorts_def short_port_def is_number_def)

end
